theory Spec2Isabelle
  imports Main "HOL-Library.Sublist"
begin

section \<open>Constants and C string primitives\<close>

text \<open>
  The development embeds the two server sources of the repository:
  \<^verbatim>\<open>src/code/server.c\<close> (the build target of the Makefile, with the extended verbs
  MKD, RMD, DELE, RNFR, RNTO) and \<^verbatim>\<open>src/unnamed/part_000\<close> (the documented server, which
  binds the data socket to port 20 and checks CWD with \<^verbatim>\<open>realpath\<close>). Functions that are
  textually the same in both files are embedded once. Where the two differ, either the
  definition taken from \<^verbatim>\<open>part_000\<close> carries the suffix \<open>_p0\<close>, or the function takes
  the file as a parameter of type \<open>variant\<close>.

  C strings are modelled as \<^typ>\<open>string\<close> without a length bound: the fixed buffers of the
  source (\<^verbatim>\<open>BUFFER_SIZE\<close>, \<^verbatim>\<open>MAX_USERNAME\<close>) are not modelled except where the source
  truncates explicitly (\<^verbatim>\<open>strncpy\<close>). C \<^verbatim>\<open>int\<close> values are modelled as \<^typ>\<open>int\<close>, with the
  reduction to 32 bits written out (\<open>int32\<close>) where the source converts or computes a
  number: the \<^verbatim>\<open>%d\<close> conversions and \<^verbatim>\<open>p1 * 256 + p2\<close> of the PORT handler. Output to
  \<^verbatim>\<open>stdout\<close>/\<^verbatim>\<open>stderr\<close> is left out.
\<close>

definition MAX_CLIENTS :: nat where
  "MAX_CLIENTS = 10"

definition BUFFER_SIZE :: nat where
  "BUFFER_SIZE = 1024"

definition MAX_USERNAME :: nat where
  "MAX_USERNAME = 50"

definition isspace :: "char \<Rightarrow> bool" where
  "isspace c \<longleftrightarrow> c = CHR '' '' \<or> c = CHR 0x09 \<or> c = CHR 0x0A \<or> c = CHR 0x0B
     \<or> c = CHR 0x0C \<or> c = CHR 0x0D"

definition isdigit :: "char \<Rightarrow> bool" where
  "isdigit c \<longleftrightarrow> c = CHR ''0'' \<or> c = CHR ''1'' \<or> c = CHR ''2'' \<or> c = CHR ''3'' \<or> c = CHR ''4''
     \<or> c = CHR ''5'' \<or> c = CHR ''6'' \<or> c = CHR ''7'' \<or> c = CHR ''8'' \<or> c = CHR ''9''"

definition digit_val :: "char \<Rightarrow> int" where
  "digit_val c = int (of_char c) - 48"

definition CRLF :: string where
  "CRLF = [CHR 0x0D, CHR 0x0A]"

text \<open>\<^verbatim>\<open>strncpy(dst, src, n)\<close> read back as a C string. When \<open>length src \<ge> n\<close> the C
  buffer holds the first \<open>n\<close> characters without a terminator.\<close>

definition strncpy :: "string \<Rightarrow> nat \<Rightarrow> string" where
  "strncpy src n = take n src"

text \<open>\<^verbatim>\<open>strstr(hay, needle)\<close>: the suffix of \<open>hay\<close> starting at the first occurrence of
  \<open>needle\<close>, or \<open>None\<close> for a null pointer.\<close>

fun strstr :: "string \<Rightarrow> string \<Rightarrow> string option" where
  "strstr [] needle = (if needle = [] then Some [] else None)"
| "strstr (c # cs) needle =
     (if prefix needle (c # cs) then Some (c # cs) else strstr cs needle)"

text \<open>The \<^verbatim>\<open>%s\<close> directive of \<^verbatim>\<open>sscanf\<close>: skip white space, then take the characters up to
  the next white space. \<open>None\<close> is an input failure (end of string).\<close>

definition scan_s :: "string \<Rightarrow> (string \<times> string) option" where
  "scan_s s =
     (let t = dropWhile isspace s
      in if t = [] then None
         else Some (takeWhile (\<lambda>c. \<not> isspace c) t, dropWhile (\<lambda>c. \<not> isspace c) t))"

text \<open>\<^verbatim>\<open>sscanf(command, "%s %s", cmd, arg)\<close>: the return value (\<open>-1\<close> is \<^verbatim>\<open>EOF\<close>) and the
  two buffers after the call. \<open>cmd0\<close> and \<open>arg0\<close> are the buffers before the call; a
  buffer that is not assigned keeps its contents.\<close>

definition sscanf_s_s :: "string \<Rightarrow> string \<Rightarrow> string \<Rightarrow> int \<times> string \<times> string" where
  "sscanf_s_s command cmd0 arg0 =
     (case scan_s command of
        None \<Rightarrow> (- 1, cmd0, arg0)
      | Some (cmd, rest) \<Rightarrow>
          (case scan_s rest of
             None \<Rightarrow> (1, cmd, arg0)
           | Some (arg, _) \<Rightarrow> (2, cmd, arg)))"

text \<open>A value stored in a C \<^verbatim>\<open>int\<close>: the low 32 bits, read as a signed number. A value in
  the range of \<^verbatim>\<open>int\<close> (\<open>c_int\<close>) is stored as it is.\<close>

definition int32 :: "int \<Rightarrow> int" where
  "int32 n = (n + 2147483648) mod 4294967296 - 2147483648"

definition c_int :: "int \<Rightarrow> bool" where
  "c_int v \<longleftrightarrow> - 2147483648 \<le> v \<and> v \<le> 2147483647"

text \<open>The result of \<^verbatim>\<open>strtol\<close> for a decimal number: out of the range of a 64-bit \<^verbatim>\<open>long\<close>
  it is \<^verbatim>\<open>LONG_MIN\<close> or \<^verbatim>\<open>LONG_MAX\<close>.\<close>

definition strtol :: "int \<Rightarrow> int" where
  "strtol n = max (- 9223372036854775808) (min n 9223372036854775807)"

text \<open>The \<^verbatim>\<open>%d\<close> directive: skip white space, an optional sign, at least one digit. The C
  library converts the digits with \<^verbatim>\<open>strtol\<close> and stores the result in the \<^verbatim>\<open>int\<close>.\<close>

definition scan_d :: "string \<Rightarrow> (int \<times> string) option" where
  "scan_d s =
     (let t = dropWhile isspace s;
          neg = (case t of [] \<Rightarrow> False | c # _ \<Rightarrow> c = CHR ''-'');
          u = (case t of [] \<Rightarrow> [] | c # r \<Rightarrow> if c = CHR ''-'' \<or> c = CHR ''+'' then r else t);
          ds = takeWhile isdigit u;
          v = foldl (\<lambda>a c. a * 10 + digit_val c) 0 ds
      in if ds = [] then None
         else Some (int32 (strtol (if neg then - v else v)), dropWhile isdigit u))"

text \<open>\<^verbatim>\<open>sscanf(port_args, "%d,%d,%d,%d,%d,%d", ...)\<close> with \<open>n\<close> conversions left: the values
  converted, in order; the return value of \<^verbatim>\<open>sscanf\<close> is compared with 6 only, so the
  length of the list stands for it.\<close>

fun scan_d_commas :: "nat \<Rightarrow> string \<Rightarrow> int list" where
  "scan_d_commas 0 s = []"
| "scan_d_commas (Suc n) s =
     (case scan_d s of
        None \<Rightarrow> []
      | Some (v, r) \<Rightarrow>
          v # (if n = 0 then []
               else (case r of
                       [] \<Rightarrow> []
                     | c # r' \<Rightarrow> if c = CHR '','' then scan_d_commas n r' else [])))"

definition sscanf_6d :: "string \<Rightarrow> int list" where
  "sscanf_6d port_args = scan_d_commas 6 port_args"

text \<open>\<^verbatim>\<open>%d\<close> and \<^verbatim>\<open>%ld\<close> of \<^verbatim>\<open>sprintf\<close>.\<close>

fun dec_nat :: "nat \<Rightarrow> string" where
  "dec_nat n =
     (if n < 10 then [''0123456789'' ! n]
      else dec_nat (n div 10) @ [''0123456789'' ! (n mod 10)])"

declare dec_nat.simps [simp del]

definition dec_int :: "int \<Rightarrow> string" where
  "dec_int i = (if i < 0 then CHR ''-'' # dec_nat (nat (- i)) else dec_nat (nat i))"

section \<open>Data model\<close>

text \<open>\<^verbatim>\<open>FTPSession\<close> of the source, field by field.\<close>

record FTPSession =
  control_fd :: int
  data_fd :: int
  username :: string
  authenticated :: int
  current_dir :: string
  root_dir :: string
  data_ip :: string
  data_port :: int

text \<open>
  The file system is the environment of the server. A path is the string handed to the
  system call; two spellings of one file are two keys. \<open>dirs p\<close>: \<^verbatim>\<open>opendir(p)\<close>
  succeeds; \<open>files p\<close>: the contents read when \<^verbatim>\<open>fopen(p, "rb")\<close> succeeds; \<open>writable p\<close>:
  an entry can be created or replaced at \<open>p\<close>; \<open>removable p\<close>: the entry at \<open>p\<close> can be
  removed; \<open>resolve p\<close>: the result of \<^verbatim>\<open>realpath(p, ...)\<close>.
\<close>

record filesys =
  dirs :: "string \<Rightarrow> bool"
  files :: "string \<Rightarrow> string option"
  writable :: "string \<Rightarrow> bool"
  removable :: "string \<Rightarrow> bool"
  resolve :: "string \<Rightarrow> string option"

text \<open>The globals of the source (\<^verbatim>\<open>users\<close>, \<^verbatim>\<open>client_sessions\<close>, \<^verbatim>\<open>rnfr_filename\<close>), the
  \<^verbatim>\<open>master_fds\<close> set of \<^verbatim>\<open>main\<close>, and the file system.\<close>

record server =
  users :: "(string \<times> string) list"
  client_sessions :: "FTPSession list"
  rnfr_filename :: "string list"
  master_fds :: "int set"
  fs :: filesys

text \<open>The two server sources.\<close>

datatype variant = Server_c | Part_000

text \<open>One result of \<^verbatim>\<open>read(data_fd, ...)\<close> in the STOR worker: a non-negative byte count
  with its bytes, or \<open>-1\<close>. The end of the list, and \<open>Bytes []\<close>, are end of file.\<close>

datatype rd = Bytes string | ReadError

text \<open>
  What the environment answers during one command: the outcome of each socket call and
  of \<^verbatim>\<open>fork\<close>, the clock, the names \<^verbatim>\<open>readdir\<close> returns, the reads of the data
  connection, whether the file of a RETR has disappeared between the handler's
  check and the worker's own \<^verbatim>\<open>fopen\<close>, and the contents of the uninitialised stack
  buffers \<^verbatim>\<open>cmd\<close> and \<^verbatim>\<open>arg\<close> on entry to \<^verbatim>\<open>handle_command\<close>.
\<close>

record io =
  socket_ok :: bool
  setsockopt_ok :: bool
  bind_ok :: bool
  connect_ok :: bool
  fork_ok :: bool
  now :: int
  dirents :: "string list"
  incoming :: "rd list"
  vanished :: bool
  cmd_buf :: string
  arg_buf :: string

text \<open>The observable actions of a handler, in program order. \<open>Send fd text\<close> is the
  \<^verbatim>\<open>write\<close> of \<^verbatim>\<open>send_response\<close>; \<open>Exit n\<close> is the exit status of the forked worker;
  \<open>fs_paths\<close> gives the paths a file-system call acts on.\<close>

datatype event =
    Send int string
  | Close int
  | Socket
  | Setsockopt
  | Bind int
  | Connect string int
  | CloseData
  | Fork
  | Exit int
  | DataWrite string
  | Opendir string
  | Fopen string string
  | Mkdir string
  | Rmdir string
  | Unlink string
  | Stat string
  | Rename string string
  | Realpath string

fun fs_paths :: "event \<Rightarrow> string list" where
  "fs_paths (Opendir p) = [p]"
| "fs_paths (Fopen p m) = [p]"
| "fs_paths (Mkdir p) = [p]"
| "fs_paths (Rmdir p) = [p]"
| "fs_paths (Unlink p) = [p]"
| "fs_paths (Stat p) = [p]"
| "fs_paths (Rename p q) = [p, q]"
| "fs_paths (Realpath p) = [p]"
| "fs_paths _ = []"

fun replies :: "event list \<Rightarrow> string list" where
  "replies [] = []"
| "replies (Send fd t # es) = t # replies es"
| "replies (_ # es) = replies es"

subsection \<open>System calls on the file system\<close>

definition sys_mkdir :: "filesys \<Rightarrow> string \<Rightarrow> bool \<times> filesys" where
  "sys_mkdir f p =
     (if writable f p \<and> \<not> dirs f p \<and> files f p = None
      then (True, f\<lparr>dirs := (dirs f)(p := True)\<rparr>)
      else (False, f))"

definition sys_rmdir :: "filesys \<Rightarrow> string \<Rightarrow> bool \<times> filesys" where
  "sys_rmdir f p =
     (if dirs f p \<and> removable f p
      then (True, f\<lparr>dirs := (dirs f)(p := False)\<rparr>)
      else (False, f))"

definition sys_unlink :: "filesys \<Rightarrow> string \<Rightarrow> bool \<times> filesys" where
  "sys_unlink f p =
     (if files f p \<noteq> None \<and> removable f p
      then (True, f\<lparr>files := (files f)(p := None)\<rparr>)
      else (False, f))"

definition sys_stat :: "filesys \<Rightarrow> string \<Rightarrow> bool" where
  "sys_stat f p \<longleftrightarrow> files f p \<noteq> None \<or> dirs f p"

definition sys_rename :: "filesys \<Rightarrow> string \<Rightarrow> string \<Rightarrow> bool \<times> filesys" where
  "sys_rename f a b =
     (if sys_stat f a \<and> writable f b
      then (if a = b then (True, f)
            else (True, f\<lparr>files := (files f)(b := files f a, a := None),
                           dirs := (dirs f)(b := dirs f a, a := False)\<rparr>))
      else (False, f))"

text \<open>\<^verbatim>\<open>fopen(p, "wb")\<close> creates or truncates; \<^verbatim>\<open>fwrite\<close> appends to the open file.\<close>

definition sys_fopen_w :: "filesys \<Rightarrow> string \<Rightarrow> bool \<times> filesys" where
  "sys_fopen_w f p =
     (if writable f p \<and> \<not> dirs f p
      then (True, f\<lparr>files := (files f)(p := Some [])\<rparr>)
      else (False, f))"

definition sys_fwrite :: "filesys \<Rightarrow> string \<Rightarrow> string \<Rightarrow> filesys" where
  "sys_fwrite f p bytes =
     f\<lparr>files := (files f)(p := Some (case files f p of None \<Rightarrow> bytes | Some old \<Rightarrow> old @ bytes))\<rparr>"

section \<open>Sessions, replies, authentication\<close>

definition send_response :: "int \<Rightarrow> string \<Rightarrow> event" where
  "send_response client_fd response = Send client_fd (response @ CRLF)"

text \<open>\<^verbatim>\<open>get_session_index\<close>: the first slot whose \<^verbatim>\<open>control_fd\<close> is the descriptor; \<open>None\<close>
  is the \<open>-1\<close> of the source.\<close>

fun find_fd :: "FTPSession list \<Rightarrow> int \<Rightarrow> nat \<Rightarrow> nat option" where
  "find_fd [] fd i = None"
| "find_fd (s # ss) fd i = (if control_fd s = fd then Some i else find_fd ss fd (Suc i))"

definition get_session_index :: "FTPSession list \<Rightarrow> int \<Rightarrow> nat option" where
  "get_session_index ss client_fd = find_fd ss client_fd 0"

definition clean_up_session :: "FTPSession \<Rightarrow> FTPSession" where
  "clean_up_session s =
     s\<lparr>control_fd := - 1, data_fd := - 1, data_port := - 1, authenticated := 0,
       username := [], data_ip := []\<rparr>"

fun authenticate_user :: "(string \<times> string) list \<Rightarrow> string \<Rightarrow> string \<Rightarrow> bool" where
  "authenticate_user [] u p = False"
| "authenticate_user ((u', p') # us) u p =
     (if u' = u \<and> p' = p then True else authenticate_user us u p)"

fun user_exists :: "(string \<times> string) list \<Rightarrow> string \<Rightarrow> bool" where
  "user_exists [] u = False"
| "user_exists ((u', p') # us) u = (if u' = u then True else user_exists us u)"

definition set_session :: "server \<Rightarrow> nat \<Rightarrow> FTPSession \<Rightarrow> server" where
  "set_session st i s = st\<lparr>client_sessions := (client_sessions st)[i := s]\<rparr>"

section \<open>Handlers without a data connection\<close>

definition handle_user_command :: "server \<Rightarrow> int \<Rightarrow> string \<Rightarrow> server \<times> event list" where
  "handle_user_command st client_fd uname =
     (case get_session_index (client_sessions st) client_fd of
        Some i \<Rightarrow>
          if user_exists (users st) uname
          then (set_session st i
                  ((client_sessions st ! i)\<lparr>username := strncpy uname MAX_USERNAME\<rparr>),
                [send_response client_fd ''331 Username OK, need password.''])
          else (st, [send_response client_fd ''530 Not logged in.''])
      | None \<Rightarrow> (st, [send_response client_fd ''500 Internal server error.'']))"

definition handle_pass_command :: "server \<Rightarrow> int \<Rightarrow> string \<Rightarrow> server \<times> event list" where
  "handle_pass_command st client_fd password =
     (case get_session_index (client_sessions st) client_fd of
        None \<Rightarrow> (st, [send_response client_fd ''503 Bad sequence of commands.''])
      | Some i \<Rightarrow>
          let s = client_sessions st ! i in
          if username s = [] then (st, [send_response client_fd ''503 Bad sequence of commands.''])
          else if authenticate_user (users st) (username s) password
          then
            let user_dir = root_dir s @ ''/'' @ username s;
                f' = snd (sys_mkdir (fs st) user_dir)
            in ((set_session st i (s\<lparr>authenticated := 1, current_dir := user_dir\<rparr>))\<lparr>fs := f'\<rparr>,
                [Mkdir user_dir, send_response client_fd ''230 User logged in, proceed.''])
          else (st, [send_response client_fd ''530 Not logged in.'']))"

text \<open>QUIT of \<^verbatim>\<open>src/code/server.c\<close> closes the control socket in the handler; QUIT of
  \<^verbatim>\<open>part_000\<close> leaves that to the main loop.\<close>

definition handle_quit_command_p0 :: "server \<Rightarrow> int \<Rightarrow> server \<times> event list" where
  "handle_quit_command_p0 st client_fd =
     (let ev = [send_response client_fd ''221 Service closing control connection.'']
      in case get_session_index (client_sessions st) client_fd of
           Some i \<Rightarrow> (set_session st i (clean_up_session (client_sessions st ! i)), ev)
         | None \<Rightarrow> (st, ev))"

definition handle_quit_command :: "server \<Rightarrow> int \<Rightarrow> server \<times> event list" where
  "handle_quit_command st client_fd =
     (let (st', ev) = handle_quit_command_p0 st client_fd in (st', ev @ [Close client_fd]))"

definition handle_port_command :: "server \<Rightarrow> int \<Rightarrow> string \<Rightarrow> server \<times> event list" where
  "handle_port_command st client_fd port_args =
     (case get_session_index (client_sessions st) client_fd of
        None \<Rightarrow> (st, [send_response client_fd ''500 Internal server error.''])
      | Some i \<Rightarrow>
          (case sscanf_6d port_args of
             [h1, h2, h3, h4, p1, p2] \<Rightarrow>
               (set_session st i
                  ((client_sessions st ! i)
                     \<lparr>data_ip := dec_int h1 @ ''.'' @ dec_int h2 @ ''.'' @ dec_int h3 @ ''.'' @ dec_int h4,
                      data_port := int32 (p1 * 256 + p2)\<rparr>),
                [send_response client_fd ''200 PORT command successful.''])
           | _ \<Rightarrow> (st, [send_response client_fd ''501 Syntax error in parameters.''])))"

definition is_absolute :: "string \<Rightarrow> bool" where
  "is_absolute dir = (case dir of [] \<Rightarrow> False | c # _ \<Rightarrow> c = CHR ''/'')"

definition handle_cwd_command :: "server \<Rightarrow> int \<Rightarrow> string \<Rightarrow> server \<times> event list" where
  "handle_cwd_command st client_fd dir =
     (case get_session_index (client_sessions st) client_fd of
        None \<Rightarrow> (st, [send_response client_fd ''500 Internal server error.''])
      | Some i \<Rightarrow>
          let s = client_sessions st ! i;
              new_dir = (if is_absolute dir then dir else current_dir s @ ''/'' @ dir)
          in if dirs (fs st) new_dir
             then (set_session st i (s\<lparr>current_dir := new_dir\<rparr>),
                   [Opendir new_dir,
                    send_response client_fd
                      (case strstr new_dir (username s) of
                         Some username_pos \<Rightarrow> ''200 directory changed to '' @ username_pos @ ''/.''
                       | None \<Rightarrow> ''200 directory changed to '' @ new_dir @ ''/.'')])
             else (st, [Opendir new_dir, send_response client_fd ''550 No such file or directory.'']))"

text \<open>CWD of \<^verbatim>\<open>part_000\<close>: \<^verbatim>\<open>realpath\<close> of the target, then a prefix test against
  \<^verbatim>\<open>realpath(username)\<close>, taken relative to the working directory of the process.\<close>

definition within_root :: "string \<Rightarrow> string \<Rightarrow> bool" where
  "within_root resolved_path allowed_root \<longleftrightarrow>
     take (length allowed_root) resolved_path = allowed_root \<and>
     (length resolved_path = length allowed_root \<or>
      resolved_path ! length allowed_root = CHR ''/'')"

definition handle_cwd_command_p0 :: "server \<Rightarrow> int \<Rightarrow> string \<Rightarrow> server \<times> event list" where
  "handle_cwd_command_p0 st client_fd dir =
     (case get_session_index (client_sessions st) client_fd of
        None \<Rightarrow> (st, [send_response client_fd ''500 Internal server error.''])
      | Some i \<Rightarrow>
          let s = client_sessions st ! i;
              target_path = (if is_absolute dir then dir else current_dir s @ ''/'' @ dir)
          in (case resolve (fs st) target_path of
                None \<Rightarrow> (st, [Realpath target_path,
                              send_response client_fd ''550 No such file or directory.''])
              | Some resolved_path \<Rightarrow>
                  (case strstr (current_dir s) (username s) of
                     None \<Rightarrow> (st, [Realpath target_path,
                                   send_response client_fd ''500 Internal server error.''])
                   | Some user_root \<Rightarrow>
                       (case resolve (fs st) (username s) of
                          None \<Rightarrow> (st, [Realpath target_path, Realpath (username s),
                                        send_response client_fd ''550 Invalid root directory.''])
                        | Some allowed_root \<Rightarrow>
                            if \<not> within_root resolved_path allowed_root
                            then (st, [Realpath target_path, Realpath (username s),
                                       send_response client_fd ''550 Permission denied.''])
                            else (set_session st i (s\<lparr>current_dir := resolved_path\<rparr>),
                                  [Realpath target_path, Realpath (username s),
                                   send_response client_fd
                                     (case strstr resolved_path (username s) of
                                        Some rel_path \<Rightarrow> ''200 directory changed to /'' @ rel_path
                                      | None \<Rightarrow> ''200 directory changed to '' @ resolved_path)])))))"

definition handle_pwd_command :: "server \<Rightarrow> int \<Rightarrow> server \<times> event list" where
  "handle_pwd_command st client_fd =
     (case get_session_index (client_sessions st) client_fd of
        None \<Rightarrow> (st, [send_response client_fd ''500 Internal server error.''])
      | Some i \<Rightarrow>
          let s = client_sessions st ! i
          in (st, [send_response client_fd
                     (case strstr (current_dir s) (username s) of
                        Some username_pos \<Rightarrow> ''257 '' @ username_pos @ ''/''
                      | None \<Rightarrow> ''257 '' @ current_dir s @ ''/'')]))"

section \<open>Handlers with a data connection\<close>

definition r425 :: "int \<Rightarrow> event" where
  "r425 client_fd = send_response client_fd ''425 Can't open data connection.''"

definition r425_bind :: "int \<Rightarrow> event" where
  "r425_bind client_fd = send_response client_fd ''425 Can't open data connection (bind 20).''"

definition r150 :: "int \<Rightarrow> event" where
  "r150 client_fd = send_response client_fd ''150 File status okay; about to open data connection.''"

definition r451 :: "int \<Rightarrow> event" where
  "r451 client_fd =
     send_response client_fd ''451 Requested action aborted: local error in processing.''"

definition r226 :: "int \<Rightarrow> event" where
  "r226 client_fd = send_response client_fd ''226 Transfer complete.''"

text \<open>The calls on the data socket before the handlers diverge: \<^verbatim>\<open>socket\<close>,
  \<^verbatim>\<open>setsockopt\<close> and, in \<^verbatim>\<open>part_000\<close> only, \<^verbatim>\<open>bind\<close> to port 20.\<close>

definition socket_calls :: "variant \<Rightarrow> event list" where
  "socket_calls v = [Socket, Setsockopt] @ (if v = Part_000 then [Bind 20] else [])"

text \<open>The name test of the LIST worker: \<^verbatim>\<open>server.c\<close> skips \<^verbatim>\<open>.\<close> and \<^verbatim>\<open>..\<close>, \<^verbatim>\<open>part_000\<close>
  every name that starts with a dot.\<close>

definition skipped :: "variant \<Rightarrow> string \<Rightarrow> bool" where
  "skipped v name =
     (case v of
        Server_c \<Rightarrow> name = ''.'' \<or> name = ''..''
      | Part_000 \<Rightarrow> (case name of [] \<Rightarrow> False | c # _ \<Rightarrow> c = CHR ''.''))"

text \<open>The forked workers. Each returns its actions and its exit status; the STOR worker
  also returns the file system it leaves.\<close>

definition list_child :: "variant \<Rightarrow> io \<Rightarrow> filesys \<Rightarrow> string \<Rightarrow> event list \<times> int" where
  "list_child v e f dir =
     (Opendir dir #
        (if dirs f dir
         then map (\<lambda>name. DataWrite (name @ CRLF)) (filter (\<lambda>name. \<not> skipped v name) (dirents e))
         else []) @ [CloseData],
      0)"

function chunks :: "nat \<Rightarrow> string \<Rightarrow> string list" where
  "chunks n xs = (if n = 0 \<or> xs = [] then [] else take n xs # chunks n (drop n xs))"
  by pat_completeness auto
termination
  by (relation "measure (\<lambda>(n, xs). length xs)") auto

declare chunks.simps [simp del]

definition retr_child :: "io \<Rightarrow> string \<Rightarrow> string \<Rightarrow> event list \<times> int" where
  "retr_child e filepath content =
     (if vanished e then ([Fopen filepath ''rb'', CloseData], 1)
      else (Fopen filepath ''rb'' # map DataWrite (chunks BUFFER_SIZE content) @ [CloseData], 0))"

text \<open>The bytes the loop \<^verbatim>\<open>while ((bytes_read = read(...)) > 0) fwrite(...)\<close> writes: it
  stops at the first read that returns 0 or \<open>-1\<close>, and does not tell the two apart.\<close>

fun received :: "rd list \<Rightarrow> string" where
  "received [] = []"
| "received (ReadError # rs) = []"
| "received (Bytes b # rs) = (if b = [] then [] else b @ received rs)"

definition stor_child ::
    "io \<Rightarrow> filesys \<Rightarrow> string \<Rightarrow> string \<Rightarrow> filesys \<times> event list \<times> int" where
  "stor_child e f temp_filepath final_filepath =
     (case sys_fopen_w f temp_filepath of
        (False, _) \<Rightarrow> (f, [Fopen temp_filepath ''wb'', CloseData], 1)
      | (True, f1) \<Rightarrow>
          let f2 = sys_fwrite f1 temp_filepath (received (incoming e));
              f3 = snd (sys_rename f2 temp_filepath final_filepath)
          in (f3, [Fopen temp_filepath ''wb'', CloseData,
                   Rename temp_filepath final_filepath], 0))"

definition reset_data :: "FTPSession \<Rightarrow> FTPSession" where
  "reset_data s = s\<lparr>data_port := - 1, data_ip := []\<rparr>"

definition handle_list_command :: "variant \<Rightarrow> io \<Rightarrow> server \<Rightarrow> int \<Rightarrow> server \<times> event list" where
  "handle_list_command v e st client_fd =
     (case get_session_index (client_sessions st) client_fd of
        None \<Rightarrow> (st, [r425 client_fd])
      | Some i \<Rightarrow>
          let s = client_sessions st ! i in
          if data_port s = - 1 then (st, [r425 client_fd])
          else if \<not> socket_ok e then (st, [Socket, r425 client_fd])
          else if \<not> setsockopt_ok e then (st, [Socket, Setsockopt, CloseData, r425 client_fd])
          else if v = Part_000 \<and> \<not> bind_ok e
          then (st, [Socket, Setsockopt, Bind 20, CloseData, r425_bind client_fd])
          else
            let pre = socket_calls v @
                      [r150 client_fd, Connect (data_ip s) (data_port s mod 65536)]
            in if \<not> connect_ok e then (st, pre @ [CloseData, r425 client_fd])
               else if \<not> fork_ok e then (st, pre @ [Fork, CloseData, r451 client_fd])
               else
                 let (cev, status) = list_child v e (fs st) (current_dir s)
                 in (set_session st i (reset_data s),
                     pre @ [Fork, CloseData] @ cev @ [Exit status, r226 client_fd]))"

definition handle_retr_command ::
    "variant \<Rightarrow> io \<Rightarrow> server \<Rightarrow> int \<Rightarrow> string \<Rightarrow> server \<times> event list" where
  "handle_retr_command v e st client_fd filename =
     (case get_session_index (client_sessions st) client_fd of
        None \<Rightarrow> (st, [r425 client_fd])
      | Some i \<Rightarrow>
          let s = client_sessions st ! i in
          if data_port s = - 1 then (st, [r425 client_fd])
          else if \<not> socket_ok e then (st, [Socket, r425 client_fd])
          else if \<not> setsockopt_ok e then (st, [Socket, Setsockopt, CloseData, r425 client_fd])
          else if v = Part_000 \<and> \<not> bind_ok e
          then (st, [Socket, Setsockopt, Bind 20, CloseData, r425_bind client_fd])
          else
            let filepath = current_dir s @ ''/'' @ filename
            in (case files (fs st) filepath of
                  None \<Rightarrow>
                    (st, socket_calls v @
                         [Fopen filepath ''rb'',
                          send_response client_fd ''550 No such file or directory.'', CloseData])
                | Some content \<Rightarrow>
                    let pre = socket_calls v @
                              [Fopen filepath ''rb'', r150 client_fd,
                               Connect (data_ip s) (data_port s mod 65536)]
                    in if \<not> connect_ok e then (st, pre @ [CloseData, r425 client_fd])
                       else if \<not> fork_ok e then (st, pre @ [Fork, CloseData, r451 client_fd])
                       else
                         let (cev, status) = retr_child e filepath content
                         in (set_session st i (reset_data s),
                             pre @ [Fork, CloseData] @ cev @ [Exit status, r226 client_fd])))"

definition handle_stor_command ::
    "variant \<Rightarrow> io \<Rightarrow> server \<Rightarrow> int \<Rightarrow> string \<Rightarrow> server \<times> event list" where
  "handle_stor_command v e st client_fd filename =
     (case get_session_index (client_sessions st) client_fd of
        None \<Rightarrow> (st, [r425 client_fd])
      | Some i \<Rightarrow>
          let s = client_sessions st ! i in
          if data_port s = - 1 then (st, [r425 client_fd])
          else if \<not> socket_ok e then (st, [Socket, r425 client_fd])
          else if \<not> setsockopt_ok e then (st, [Socket, Setsockopt, CloseData, r425 client_fd])
          else if v = Part_000 \<and> \<not> bind_ok e
          then (st, [Socket, Setsockopt, Bind 20, CloseData, r425_bind client_fd])
          else
            let temp_filepath = current_dir s @ ''/tmp_'' @ dec_int (now e) @ ''_'' @ filename;
                final_filepath = current_dir s @ ''/'' @ filename;
                pre = socket_calls v @
                      [r150 client_fd, Connect (data_ip s) (data_port s mod 65536)]
            in if \<not> connect_ok e then (st, pre @ [CloseData, r425 client_fd])
               else if \<not> fork_ok e then (st, pre @ [Fork, CloseData, r451 client_fd])
               else
                 let (f', cev, status) = stor_child e (fs st) temp_filepath final_filepath
                 in ((set_session st i (reset_data s))\<lparr>fs := f'\<rparr>,
                     pre @ [Fork, CloseData] @ cev @ [Exit status, r226 client_fd]))"

section \<open>The extended verbs of \<^verbatim>\<open>src/code/server.c\<close>\<close>

definition quoted :: "string \<Rightarrow> string" where
  "quoted name = [CHR 0x22] @ name @ [CHR 0x22]"

definition handle_mkd_command :: "server \<Rightarrow> int \<Rightarrow> string \<Rightarrow> server \<times> event list" where
  "handle_mkd_command st client_fd dirname =
     (case get_session_index (client_sessions st) client_fd of
        None \<Rightarrow> (st, [send_response client_fd ''500 Internal server error.''])
      | Some i \<Rightarrow>
          let dir_path = current_dir (client_sessions st ! i) @ ''/'' @ dirname
          in if dirs (fs st) dir_path
             then (st, [Opendir dir_path, send_response client_fd ''550 Directory already exists.''])
             else (case sys_mkdir (fs st) dir_path of
                     (True, f') \<Rightarrow>
                       (st\<lparr>fs := f'\<rparr>,
                        [Opendir dir_path, Mkdir dir_path,
                         send_response client_fd (''257 '' @ quoted dirname @ '' directory created.'')])
                   | (False, _) \<Rightarrow>
                       (st, [Opendir dir_path, Mkdir dir_path,
                             send_response client_fd ''550 Failed to create directory.''])))"

definition handle_rmd_command :: "server \<Rightarrow> int \<Rightarrow> string \<Rightarrow> server \<times> event list" where
  "handle_rmd_command st client_fd dirname =
     (case get_session_index (client_sessions st) client_fd of
        None \<Rightarrow> (st, [send_response client_fd ''500 Internal server error.''])
      | Some i \<Rightarrow>
          let dir_path = current_dir (client_sessions st ! i) @ ''/'' @ dirname
          in if \<not> dirs (fs st) dir_path
             then (st, [Opendir dir_path, send_response client_fd ''550 Directory not found.''])
             else (case sys_rmdir (fs st) dir_path of
                     (True, f') \<Rightarrow>
                       (st\<lparr>fs := f'\<rparr>,
                        [Opendir dir_path, Rmdir dir_path,
                         send_response client_fd (''250 '' @ quoted dirname @ '' directory removed.'')])
                   | (False, _) \<Rightarrow>
                       (st, [Opendir dir_path, Rmdir dir_path,
                             send_response client_fd
                               ''550 Failed to remove directory. Make sure it is empty.''])))"

definition handle_dele_command :: "server \<Rightarrow> int \<Rightarrow> string \<Rightarrow> server \<times> event list" where
  "handle_dele_command st client_fd filename =
     (case get_session_index (client_sessions st) client_fd of
        None \<Rightarrow> (st, [send_response client_fd ''500 Internal server error.''])
      | Some i \<Rightarrow>
          let file_path = current_dir (client_sessions st ! i) @ ''/'' @ filename
          in if files (fs st) file_path = None
             then (st, [Fopen file_path ''r'', send_response client_fd ''550 File not found.''])
             else (case sys_unlink (fs st) file_path of
                     (True, f') \<Rightarrow>
                       (st\<lparr>fs := f'\<rparr>,
                        [Fopen file_path ''r'', Unlink file_path,
                         send_response client_fd (''250 '' @ quoted filename @ '' file deleted.'')])
                   | (False, _) \<Rightarrow>
                       (st, [Fopen file_path ''r'', Unlink file_path,
                             send_response client_fd ''550 Failed to delete file.''])))"

definition handle_rnfr_command :: "server \<Rightarrow> int \<Rightarrow> string \<Rightarrow> server \<times> event list" where
  "handle_rnfr_command st client_fd oldname =
     (case get_session_index (client_sessions st) client_fd of
        None \<Rightarrow> (st, [send_response client_fd ''500 Internal server error.''])
      | Some i \<Rightarrow>
          let file_path = current_dir (client_sessions st ! i) @ ''/'' @ oldname
          in if \<not> sys_stat (fs st) file_path
             then (st, [Stat file_path, send_response client_fd ''550 File not found.''])
             else (st\<lparr>rnfr_filename := (rnfr_filename st)[i := file_path]\<rparr>,
                   [Stat file_path,
                    send_response client_fd
                      ''350 Requested file action pending further information.'']))"

definition handle_rnto_command :: "server \<Rightarrow> int \<Rightarrow> string \<Rightarrow> server \<times> event list" where
  "handle_rnto_command st client_fd newname =
     (case get_session_index (client_sessions st) client_fd of
        None \<Rightarrow> (st, [send_response client_fd ''500 Internal server error.''])
      | Some i \<Rightarrow>
          if rnfr_filename st ! i = []
          then (st, [send_response client_fd ''503 Bad sequence of commands.''])
          else
            let new_file_path = current_dir (client_sessions st ! i) @ ''/'' @ newname;
                (ok, f') = sys_rename (fs st) (rnfr_filename st ! i) new_file_path
            in (st\<lparr>fs := f', rnfr_filename := (rnfr_filename st)[i := []]\<rparr>,
                [Rename (rnfr_filename st ! i) new_file_path,
                 send_response client_fd
                   (if ok then ''250 File successfully renamed.''
                    else ''550 Failed to rename file.'')]))"

section \<open>Command dispatch and the main loop\<close>

text \<open>The chain of comparisons under \<^verbatim>\<open>// Handle commands\<close> in \<^verbatim>\<open>handle_command\<close>, for the
  session found at \<open>session_index\<close>.\<close>

definition dispatch ::
    "variant \<Rightarrow> io \<Rightarrow> server \<Rightarrow> int \<Rightarrow> nat \<Rightarrow> string \<Rightarrow> string \<Rightarrow> server \<times> event list" where
  "dispatch v e st client_fd session_index cmd arg =
     (if cmd = ''USER'' then handle_user_command st client_fd arg
      else if cmd = ''PASS'' then handle_pass_command st client_fd arg
      else if cmd = ''QUIT''
      then (case v of
              Server_c \<Rightarrow> handle_quit_command st client_fd
            | Part_000 \<Rightarrow> handle_quit_command_p0 st client_fd)
      else if authenticated (client_sessions st ! session_index) = 0
      then (st, [send_response client_fd ''530 Not logged in.''])
      else if cmd = ''PORT'' then handle_port_command st client_fd arg
      else if cmd = ''LIST'' then handle_list_command v e st client_fd
      else if cmd = ''CWD''
      then (case v of
              Server_c \<Rightarrow> handle_cwd_command st client_fd arg
            | Part_000 \<Rightarrow> handle_cwd_command_p0 st client_fd arg)
      else if cmd = ''PWD'' then handle_pwd_command st client_fd
      else if cmd = ''RETR'' then handle_retr_command v e st client_fd arg
      else if cmd = ''STOR'' then handle_stor_command v e st client_fd arg
      else if v = Server_c \<and> cmd = ''MKD'' then handle_mkd_command st client_fd arg
      else if v = Server_c \<and> cmd = ''RMD'' then handle_rmd_command st client_fd arg
      else if v = Server_c \<and> cmd = ''DELE'' then handle_dele_command st client_fd arg
      else if v = Server_c \<and> cmd = ''RNFR'' then handle_rnfr_command st client_fd arg
      else if v = Server_c \<and> cmd = ''RNTO'' then handle_rnto_command st client_fd arg
      else (st, [send_response client_fd ''202 Command not implemented.'']))"

definition handle_command ::
    "variant \<Rightarrow> io \<Rightarrow> server \<Rightarrow> int \<Rightarrow> string \<Rightarrow> server \<times> event list" where
  "handle_command v e st client_fd command =
     (let (n, cmd, arg) = sscanf_s_s command (cmd_buf e) (arg_buf e) in
      if n < 1 then (st, [send_response client_fd ''500 Syntax error, command unrecognized.''])
      else
        (case get_session_index (client_sessions st) client_fd of
           None \<Rightarrow> (st, [send_response client_fd ''500 Internal server error.''])
         | Some session_index \<Rightarrow> dispatch v e st client_fd session_index cmd arg))"

definition initialize_sessions :: "FTPSession list" where
  "initialize_sessions =
     replicate MAX_CLIENTS
       \<lparr>control_fd = - 1, data_fd = - 1, username = [], authenticated = 0, current_dir = [],
        root_dir = [], data_ip = [], data_port = - 1\<rparr>"

text \<open>The branch of \<^verbatim>\<open>main\<close> for a readable listening socket, after a successful
  \<^verbatim>\<open>accept\<close> that returned \<open>client_fd\<close>; \<open>cwd\<close> is the result of \<^verbatim>\<open>getcwd\<close>.\<close>

definition accept_client :: "server \<Rightarrow> int \<Rightarrow> string option \<Rightarrow> server \<times> event list" where
  "accept_client st client_fd cwd =
     (let st1 = st\<lparr>master_fds := insert client_fd (master_fds st)\<rparr>;
          st2 = (case find_fd (client_sessions st) (- 1) 0 of
                   None \<Rightarrow> st1
                 | Some i \<Rightarrow>
                     let s = (client_sessions st ! i)
                               \<lparr>control_fd := client_fd, authenticated := 0, data_fd := - 1,
                                data_port := - 1, data_ip := []\<rparr>
                     in set_session st1 i
                          (case cwd of
                             None \<Rightarrow> s
                           | Some d \<Rightarrow> s\<lparr>root_dir := d, current_dir := d\<rparr>))
      in (st2, [send_response client_fd ''220 Service ready for new user.'']))"

text \<open>The command buffer as a C string, after \<^verbatim>\<open>main\<close> has overwritten every CR and LF
  with a null character.\<close>

definition c_line :: "string \<Rightarrow> string" where
  "c_line buffer = takeWhile (\<lambda>c. c \<noteq> CHR 0x0A \<and> c \<noteq> CHR 0x0D \<and> c \<noteq> CHR 0x00) buffer"

text \<open>The branch of \<^verbatim>\<open>main\<close> for a readable control socket; \<open>buffer\<close> holds the bytes
  \<^verbatim>\<open>read\<close> returned, and is empty when \<^verbatim>\<open>read\<close> returned 0 or \<open>-1\<close>.\<close>

definition client_readable ::
    "variant \<Rightarrow> io \<Rightarrow> server \<Rightarrow> int \<Rightarrow> string \<Rightarrow> server \<times> event list" where
  "client_readable v e st fd buffer =
     (if buffer = []
      then
        (let st1 = (case get_session_index (client_sessions st) fd of
                      Some i \<Rightarrow> set_session st i (clean_up_session (client_sessions st ! i))
                    | None \<Rightarrow> st)
         in (st1\<lparr>master_fds := master_fds st - {fd}\<rparr>, [Close fd]))
      else handle_command v e st fd (c_line buffer))"

text \<open>The path a request names, with \<^verbatim>\<open>.\<close> and \<^verbatim>\<open>..\<close> collapsed as the kernel resolves
  them on a file system without symbolic links; and the jail of a session, the
  directory \<^verbatim>\<open>root_dir/username\<close> that PASS makes the current directory.\<close>

fun split_path :: "string \<Rightarrow> string \<Rightarrow> string list" where
  "split_path acc [] = [rev acc]"
| "split_path acc (c # cs) =
     (if c = CHR ''/'' then rev acc # split_path [] cs else split_path (c # acc) cs)"

fun collapse :: "string list \<Rightarrow> string list \<Rightarrow> string list" where
  "collapse stack [] = rev stack"
| "collapse stack (seg # segs) =
     (if seg = [] \<or> seg = ''.'' then collapse stack segs
      else if seg = ''..'' then collapse (tl stack) segs
      else collapse (seg # stack) segs)"

definition canonical :: "string \<Rightarrow> string" where
  "canonical path =
     (case collapse [] (split_path [] path) of
        [] \<Rightarrow> ''/''
      | segs \<Rightarrow> concat (map (\<lambda>seg. CHR ''/'' # seg) segs))"

definition jail :: "FTPSession \<Rightarrow> string" where
  "jail s = root_dir s @ ''/'' @ username s"

definition inside :: "string \<Rightarrow> string \<Rightarrow> bool" where
  "inside root path \<longleftrightarrow> path = root \<or> prefix (root @ ''/'') path"

text \<open>
  The \<^verbatim>\<open>select\<close> loop of \<^verbatim>\<open>main\<close>. One round is one return of \<^verbatim>\<open>select\<close>: first the
  listening socket, if it is ready and \<^verbatim>\<open>accept\<close> returns a descriptor, then the ready
  control sockets in turn, each with the environment of its command and the bytes that
  \<^verbatim>\<open>read\<close> returned. The next \<^verbatim>\<open>select\<close> fails with \<^verbatim>\<open>EBADF\<close>, and the server exits, when
  a descriptor was closed and is still in \<^verbatim>\<open>master_fds\<close>; \<open>None\<close> is the exited server.
\<close>

datatype input = Accepted int "string option" | Readable io int string

definition step :: "variant \<Rightarrow> server \<Rightarrow> input \<Rightarrow> server \<times> event list" where
  "step v st inp =
     (case inp of
        Accepted client_fd cwd \<Rightarrow> accept_client st client_fd cwd
      | Readable e fd buffer \<Rightarrow> client_readable v e st fd buffer)"

fun run :: "variant \<Rightarrow> server \<Rightarrow> input list \<Rightarrow> server \<times> event list" where
  "run v st [] = (st, [])"
| "run v st (inp # rest) =
     (let (st1, ev1) = step v st inp;
          (st2, ev2) = run v st1 rest
      in (st2, ev1 @ ev2))"

type_synonym round = "(int \<times> string option) option \<times> (io \<times> int \<times> string) list"

definition round_inputs :: "round \<Rightarrow> input list" where
  "round_inputs r =
     (case fst r of None \<Rightarrow> [] | Some (client_fd, cwd) \<Rightarrow> [Accepted client_fd cwd]) @
     map (\<lambda>(e, fd, buffer). Readable e fd buffer) (snd r)"

definition closes_selected :: "server \<Rightarrow> event \<Rightarrow> bool" where
  "closes_selected st x = (case x of Close fd \<Rightarrow> fd \<in> master_fds st | _ \<Rightarrow> False)"

definition select_fails :: "server \<Rightarrow> event list \<Rightarrow> bool" where
  "select_fails st ev = list_ex (closes_selected st) ev"

fun main_loop :: "variant \<Rightarrow> server \<Rightarrow> round list \<Rightarrow> server option \<times> event list" where
  "main_loop v st [] = (Some st, [])"
| "main_loop v st (r # rounds) =
     (let (st1, ev1) = run v st (round_inputs r)
      in if select_fails st1 ev1 then (None, ev1)
         else (let (res, ev2) = main_loop v st1 rounds in (res, ev1 @ ev2)))"


section \<open>Notions of the specification\<close>

text \<open>What the server does on one control connection (its replies and the \<^verbatim>\<open>close\<close>), and
  the non-empty reads it makes on it.\<close>

definition on_fd :: "int \<Rightarrow> event \<Rightarrow> bool" where
  "on_fd fd x = (case x of Send fd' t \<Rightarrow> fd' = fd | Close fd' \<Rightarrow> fd' = fd | _ \<Rightarrow> False)"


text \<open>The white-space separated words of a control line.\<close>

fun tokens_from :: "string \<Rightarrow> string \<Rightarrow> string list" where
  "tokens_from acc [] = (if acc = [] then [] else [rev acc])"
| "tokens_from acc (c # cs) =
     (if isspace c
      then (if acc = [] then tokens_from [] cs else rev acc # tokens_from [] cs)
      else tokens_from (c # acc) cs)"

definition tokens :: "string \<Rightarrow> string list" where
  "tokens line = tokens_from [] line"

text \<open>The text \<^verbatim>\<open>h1,h2,h3,h4,p1,p2\<close> of a PORT argument, as the client prints it.\<close>

definition port_args :: "nat \<Rightarrow> nat \<Rightarrow> nat \<Rightarrow> nat \<Rightarrow> nat \<Rightarrow> nat \<Rightarrow> string" where
  "port_args h1 h2 h3 h4 p1 p2 =
     dec_nat h1 @ '','' @ dec_nat h2 @ '','' @ dec_nat h3 @ '','' @ dec_nat h4 @ '','' @
     dec_nat p1 @ '','' @ dec_nat p2"

text \<open>The state \<open>Unauth\<close> of the specification, in the fields of the source: no user
  named and not authenticated.\<close>

definition unauth :: "FTPSession \<Rightarrow> bool" where
  "unauth s \<longleftrightarrow> username s = [] \<and> authenticated s = 0"

text \<open>Every call on the data socket up to \<^verbatim>\<open>fork\<close> succeeds, so that a worker runs.\<close>

definition calls_ok :: "variant \<Rightarrow> io \<Rightarrow> bool" where
  "calls_ok v e \<longleftrightarrow>
     socket_ok e \<and> setsockopt_ok e \<and> (v = Server_c \<or> bind_ok e) \<and> connect_ok e \<and> fork_ok e"

text \<open>The descriptors that have a session, and the effect a command may have on them:
  the \<^verbatim>\<open>select\<close> set is untouched and no slot is given to a new descriptor (a slot can
  only be freed).\<close>

definition fds :: "server \<Rightarrow> int set" where
  "fds st = control_fd ` set (client_sessions st)"

definition same_descriptors :: "server \<Rightarrow> server \<Rightarrow> bool" where
  "same_descriptors st st' \<longleftrightarrow>
     master_fds st' = master_fds st \<and> fds st' \<subseteq> insert (- 1) (fds st)"

section \<open>A concrete server\<close>

text \<open>A server rooted at \<^verbatim>\<open>/srv\<close> with the users of the README, on a file system without
  symbolic links: a path names what its canonical form names.\<close>

definition free_slot :: FTPSession where
  "free_slot =
     \<lparr>control_fd = - 1, data_fd = - 1, username = [], authenticated = 0, current_dir = [],
      root_dir = [], data_ip = [], data_port = - 1\<rparr>"

definition ex_fs :: filesys where
  "ex_fs =
     \<lparr>dirs = (\<lambda>p. canonical p \<in> set [''/'', ''/srv'', ''/srv/alice'', ''/srv/bob'', ''/etc'']),
      files = (\<lambda>p. map_of [(''/etc/passwd'', ''root:x:0:0''),
                            (''/srv/alice/hello.txt'', ''hello'')] (canonical p)),
      writable = (\<lambda>p. True),
      removable = (\<lambda>p. True),
      resolve = (\<lambda>p. Some (canonical (if is_absolute p then p else ''/srv/'' @ p)))\<rparr>"

text \<open>Alice logged in, with a PORT pending; and Alice named by USER but not logged in.\<close>

definition ex_alice :: FTPSession where
  "ex_alice =
     \<lparr>control_fd = 5, data_fd = - 1, username = ''alice'', authenticated = 1,
      current_dir = ''/srv/alice'', root_dir = ''/srv'', data_ip = ''127.0.0.1'',
      data_port = 5000\<rparr>"

definition ex_named :: FTPSession where
  "ex_named =
     \<lparr>control_fd = 5, data_fd = - 1, username = ''alice'', authenticated = 0,
      current_dir = ''/srv'', root_dir = ''/srv'', data_ip = [], data_port = - 1\<rparr>"

definition ex_server :: "FTPSession \<Rightarrow> server" where
  "ex_server s =
     \<lparr>users = [(''alice'', ''wonderland''), (''bob'', ''donuts'')],
      client_sessions = s # replicate 9 free_slot,
      rnfr_filename = replicate 10 [],
      master_fds = {3, 5},
      fs = ex_fs\<rparr>"

text \<open>An environment in which every call succeeds and the peer's upload breaks off with
  a read error after three bytes.\<close>

definition ex_io :: io where
  "ex_io =
     \<lparr>socket_ok = True, setsockopt_ok = True, bind_ok = True, connect_ok = True,
      fork_ok = True, now = 1700000000, dirents = [''.'', ''..'', ''hello.txt''],
      incoming = [Bytes ''abc'', ReadError], vanished = False, cmd_buf = ''junk'',
      arg_buf = ''stale''\<rparr>"

text \<open>The same server on a file system where nothing can be created.\<close>

definition ex_readonly :: server where
  "ex_readonly = (ex_server ex_alice)\<lparr>fs := ex_fs\<lparr>writable := (\<lambda>p. False)\<rparr>\<rparr>"




section \<open>Facts about the session table\<close>

lemma find_fd_Some:
  "find_fd ss fd k = Some i \<Longrightarrow>
   k \<le> i \<and> i - k < length ss \<and> control_fd (ss ! (i - k)) = fd"
proof (induction ss arbitrary: k)
  case Nil
  then show ?case by simp
next
  case (Cons s ss)
  show ?case
  proof (cases "control_fd s = fd")
    case True
    with Cons.prems show ?thesis by simp
  next
    case False
    with Cons.prems have "find_fd ss fd (Suc k) = Some i" by simp
    from Cons.IH[OF this] have a: "Suc k \<le> i" and b: "i - Suc k < length ss"
      and c: "control_fd (ss ! (i - Suc k)) = fd" by auto
    from a have "i - k = Suc (i - Suc k)" by arith
    with a b c show ?thesis by simp
  qed
qed

lemma get_session_index_Some:
  "get_session_index ss fd = Some i \<Longrightarrow> i < length ss \<and> control_fd (ss ! i) = fd"
  using find_fd_Some[of ss fd 0 i] by (simp add: get_session_index_def)



lemma find_fd_update:
  "find_fd ss fd k = Some i \<Longrightarrow> control_fd s' = fd \<Longrightarrow>
   find_fd (ss[i - k := s']) fd k = Some i"
proof (induction ss arbitrary: k)
  case Nil
  then show ?case by simp
next
  case (Cons s ss)
  show ?case
  proof (cases "control_fd s = fd")
    case True
    with Cons.prems show ?thesis by simp
  next
    case False
    with Cons.prems have f: "find_fd ss fd (Suc k) = Some i" by simp
    from find_fd_Some[OF f] have "Suc k \<le> i" by simp
    then have e: "i - k = Suc (i - Suc k)" by arith
    from Cons.IH[OF f Cons.prems(2)] False show ?thesis by (simp add: e)
  qed
qed

lemma get_session_index_update:
  "get_session_index ss fd = Some i \<Longrightarrow> control_fd s' = fd \<Longrightarrow>
   get_session_index (ss[i := s']) fd = Some i"
  using find_fd_update[of ss fd 0 i s'] by (simp add: get_session_index_def)

text \<open>The concrete server: its first slot is the session given, on descriptor 5.\<close>

lemma ex_index: "get_session_index (client_sessions (ex_server s)) (control_fd s) = Some 0"
  by (simp add: ex_server_def get_session_index_def)

lemma ex_index_alice: "get_session_index (client_sessions (ex_server ex_alice)) 5 = Some 0"
  using ex_index[of ex_alice] by (simp add: ex_alice_def)

lemma ex_index_named: "get_session_index (client_sessions (ex_server ex_named)) 5 = Some 0"
  using ex_index[of ex_named] by (simp add: ex_named_def)

lemma ex_session [simp]: "client_sessions (ex_server s) ! 0 = s"
  by (simp add: ex_server_def)

lemma ex_update [simp]: "client_sessions (set_session (ex_server s) 0 s') ! 0 = s'"
  by (simp add: ex_server_def set_session_def)

lemma ex_set_session: "set_session (ex_server s) 0 s' = ex_server s'"
  by (simp add: ex_server_def set_session_def)

lemma ex_fields [simp]:
  "users (ex_server s) = [(''alice'', ''wonderland''), (''bob'', ''donuts'')]"
  "fs (ex_server s) = ex_fs"
  by (simp_all add: ex_server_def)

section \<open>PASS with a wrong password\<close>

text \<open>
  Claim C5, as the source has it. For a session that has a user named, PASS with a
  password that does not verify for that user replies 530 and changes nothing at all:
  the user name stays stored and the session stays where it was, so that a later PASS
  with the right password logs in without a new USER.
\<close>

theorem pass_mismatch_changes_nothing:
  assumes "get_session_index (client_sessions st) client_fd = Some i"
    and "username (client_sessions st ! i) \<noteq> []"
    and "\<not> authenticate_user (users st) (username (client_sessions st ! i)) password"
  shows "handle_pass_command st client_fd password =
           (st, [send_response client_fd ''530 Not logged in.''])"
  using assms by (simp add: handle_pass_command_def)

theorem pass_mismatch_changes_nothing_witness:
  "get_session_index (client_sessions (ex_server ex_named)) 5 = Some 0 \<and>
   username (client_sessions (ex_server ex_named) ! 0) \<noteq> [] \<and>
   \<not> authenticate_user (users (ex_server ex_named))
        (username (client_sessions (ex_server ex_named) ! 0)) ''bad'' \<and>
   handle_pass_command (ex_server ex_named) 5 ''bad'' =
     (ex_server ex_named, [send_response 5 ''530 Not logged in.''])"
proof -
  have h1: "get_session_index (client_sessions (ex_server ex_named)) 5 = Some 0"
    by (rule ex_index_named)
  have h2: "username (client_sessions (ex_server ex_named) ! 0) \<noteq> []"
    by (simp add: ex_named_def)
  have h3: "\<not> authenticate_user (users (ex_server ex_named))
              (username (client_sessions (ex_server ex_named) ! 0)) ''bad''"
    by (simp add: ex_named_def)
  show ?thesis
    by (rule conjI[OF h1 conjI[OF h2 conjI[OF h3 pass_mismatch_changes_nothing[OF h1 h2 h3]]]])
qed

text \<open>The claim as the specification words it fails: after \<^verbatim>\<open>PASS bad\<close> the session of
  Alice is not in the state \<open>Unauth\<close>, and \<^verbatim>\<open>PASS wonderland\<close> alone then logs her in.\<close>

theorem pass_mismatch_not_unauth:
  "replies (snd (handle_pass_command (ex_server ex_named) 5 ''bad'')) =
     [''530 Not logged in.'' @ CRLF] \<and>
   \<not> unauth (client_sessions (fst (handle_pass_command (ex_server ex_named) 5 ''bad'')) ! 0) \<and>
   replies (snd (handle_pass_command
                   (fst (handle_pass_command (ex_server ex_named) 5 ''bad'')) 5 ''wonderland'')) =
     [''230 User logged in, proceed.'' @ CRLF] \<and>
   authenticated
     (client_sessions
        (fst (handle_pass_command
                (fst (handle_pass_command (ex_server ex_named) 5 ''bad'')) 5 ''wonderland'')) ! 0) = 1"
proof -
  have bad: "handle_pass_command (ex_server ex_named) 5 ''bad'' =
               (ex_server ex_named, [send_response 5 ''530 Not logged in.''])"
    by (simp add: handle_pass_command_def ex_index_named) (simp add: ex_named_def)
  have good: "handle_pass_command (ex_server ex_named) 5 ''wonderland'' =
     ((set_session (ex_server ex_named) 0
         (ex_named\<lparr>authenticated := 1, current_dir := ''/srv/alice''\<rparr>))
        \<lparr>fs := snd (sys_mkdir ex_fs ''/srv/alice'')\<rparr>,
      [Mkdir ''/srv/alice'', send_response 5 ''230 User logged in, proceed.''])"
    by (simp add: handle_pass_command_def ex_index_named Let_def) (simp add: ex_named_def)
  show ?thesis
    unfolding bad unfolding fst_conv snd_conv good
    by (simp add: send_response_def unauth_def set_session_def ex_server_def) (simp add: ex_named_def)
qed

section \<open>PORT\<close>

subsection \<open>Printing and scanning decimal numbers\<close>

lemma digit_char:
  assumes "d < 10"
  shows "isdigit (''0123456789'' ! d) \<and> digit_val (''0123456789'' ! d) = int d"
proof -
  from assms have "d \<in> set [0, 1, 2, 3, 4, 5, 6, 7, 8, 9]"
    by simp arith
  then show ?thesis
    by (auto simp: isdigit_def digit_val_def)
qed

lemma dec_nat_digits: "\<forall>c \<in> set (dec_nat n). isdigit c"
proof (induction n rule: dec_nat.induct)
  case (1 n)
  show ?case
  proof (cases "n < 10")
    case True
    then show ?thesis using digit_char[of n] by (subst dec_nat.simps) simp
  next
    case False
    with 1 digit_char[of "n mod 10"] show ?thesis by (subst dec_nat.simps) simp
  qed
qed

lemma dec_nat_nonempty: "dec_nat n \<noteq> []"
  by (subst dec_nat.simps) simp

lemma dec_nat_value: "foldl (\<lambda>a c. a * 10 + digit_val c) 0 (dec_nat n) = int n"
proof (induction n rule: dec_nat.induct)
  case (1 n)
  show ?case
  proof (cases "n < 10")
    case True
    then show ?thesis using digit_char[of n] by (subst dec_nat.simps) simp
  next
    case False
    with 1 digit_char[of "n mod 10"] show ?thesis
      by (subst dec_nat.simps) (simp, presburger)
  qed
qed

lemma isdigit_plain:
  "isdigit c \<Longrightarrow> \<not> isspace c \<and> c \<noteq> CHR ''-'' \<and> c \<noteq> CHR ''+'' \<and> c \<noteq> CHR '',''"
  by (auto simp: isdigit_def isspace_def)

lemma int32_id: "c_int n \<Longrightarrow> int32 n = n"
  by (simp add: int32_def c_int_def)

lemma strtol_id: "c_int n \<Longrightarrow> strtol n = n"
  by (simp add: strtol_def c_int_def)

lemma int32_range: "c_int (int32 n)"
proof -
  have "0 \<le> (n + 2147483648) mod 4294967296" and "(n + 2147483648) mod 4294967296 < 4294967296"
    by simp_all
  then show ?thesis
    unfolding int32_def c_int_def by linarith
qed

text \<open>Scanning a printed number that fits an \<^verbatim>\<open>int\<close> gives the number back and stops at
  the first character that is not a digit.\<close>

lemma scan_d_dec_nat:
  assumes "takeWhile isdigit rest = []" and "n \<le> 2147483647"
  shows "scan_d (dec_nat n @ rest) = Some (int n, rest)"
proof -
  obtain c cs where d: "dec_nat n = c # cs"
    using dec_nat_nonempty[of n] by (cases "dec_nat n") auto
  have dig: "\<forall>x \<in> set (c # cs). isdigit x"
    using dec_nat_digits[of n] d by simp
  then have c: "isdigit c" by simp
  have tw: "takeWhile isdigit ((c # cs) @ rest) = c # cs"
    using dig assms(1) by (simp only: takeWhile_append2) simp
  have dw: "dropWhile isdigit ((c # cs) @ rest) = rest"
    using dig assms(1)
    by (simp only: dropWhile_append2) (simp add: takeWhile_eq_Nil_iff dropWhile_eq_self_iff)
  have v: "foldl (\<lambda>a c. a * 10 + digit_val c) 0 (c # cs) = int n"
    using dec_nat_value[of n] d by simp
  have r: "c_int (int n)"
    using assms(2) by (simp add: c_int_def)
  have w: "int32 (strtol (int n)) = int n"
    by (simp only: strtol_id[OF r] int32_id[OF r])
  show ?thesis
    unfolding scan_d_def d using isdigit_plain[OF c] tw dw v w by (simp add: Let_def)
qed

lemma takeWhile_isdigit_comma: "takeWhile isdigit (CHR '','' # r) = []"
  by (simp add: isdigit_def)

lemma sscanf_6d_port_args:
  assumes "list_all (\<lambda>n. n \<le> 2147483647) [h1, h2, h3, h4, p1, p2]"
  shows "sscanf_6d (port_args h1 h2 h3 h4 p1 p2) =
           [int h1, int h2, int h3, int h4, int p1, int p2]"
proof -
  have c: "\<And>n r. n \<le> 2147483647 \<Longrightarrow>
             scan_d (dec_nat n @ CHR '','' # r) = Some (int n, CHR '','' # r)"
    by (rule scan_d_dec_nat[OF takeWhile_isdigit_comma])
  have e: "\<And>n. n \<le> 2147483647 \<Longrightarrow> scan_d (dec_nat n) = Some (int n, [])"
    using scan_d_dec_nat[of "[]"] by simp
  have six: "(6::nat) = Suc (Suc (Suc (Suc (Suc (Suc 0)))))"
    by simp
  from assms have "h1 \<le> 2147483647" "h2 \<le> 2147483647" "h3 \<le> 2147483647"
    "h4 \<le> 2147483647" "p1 \<le> 2147483647" "p2 \<le> 2147483647"
    by simp_all
  then show ?thesis
    unfolding sscanf_6d_def port_args_def six by (simp add: c e)
qed

text \<open>Every number scanned is in the range of an \<^verbatim>\<open>int\<close>.\<close>

lemma scan_d_range: "scan_d s = Some (v, r) \<Longrightarrow> c_int v"
  by (auto simp: scan_d_def Let_def int32_range split: if_splits)

lemma scan_d_commas_range: "list_all c_int (scan_d_commas n s)"
proof (induction n arbitrary: s)
  case 0
  show ?case by simp
next
  case (Suc n)
  show ?case
    using Suc.IH scan_d_range[of s]
    by (auto split: option.splits list.splits)
qed

text \<open>A number beyond the range of an \<^verbatim>\<open>int\<close> is stored reduced to 32 bits.\<close>

lemma scan_d_wraps: "scan_d ''2147483648'' = Some (- 2147483648, [])"
  by (simp add: scan_d_def isdigit_def isspace_def digit_val_def Let_def int32_def strtol_def)

lemma dec_int_small [simp]:
  "dec_int 0 = ''0''" "dec_int 1 = ''1''" "dec_int 256 = ''256''"
  "dec_int 1700000000 = ''1700000000''" "dec_int 10 = ''10''" "dec_int 2 = ''2''"
  by (simp_all add: dec_int_def dec_nat.simps)

lemma dec_nat_small [simp]:
  "dec_nat 0 = ''0''" "dec_nat (Suc 0) = ''1''" "dec_nat 10 = ''10''" "dec_nat 2 = ''2''"
  "dec_nat 4 = ''4''"
  by (simp_all add: dec_nat.simps)

subsection \<open>The handler\<close>

lemma port_six:
  "get_session_index (client_sessions st) client_fd = Some i \<Longrightarrow>
   sscanf_6d args = [h1, h2, h3, h4, p1, p2] \<Longrightarrow>
   handle_port_command st client_fd args =
     (set_session st i
        ((client_sessions st ! i)
           \<lparr>data_ip := dec_int h1 @ ''.'' @ dec_int h2 @ ''.'' @ dec_int h3 @ ''.'' @ dec_int h4,
            data_port := int32 (p1 * 256 + p2)\<rparr>),
      [send_response client_fd ''200 PORT command successful.''])"
  by (simp add: handle_port_command_def)

lemma port_fewer:
  "get_session_index (client_sessions st) client_fd = Some i \<Longrightarrow>
   length (sscanf_6d args) \<noteq> 6 \<Longrightarrow>
   handle_port_command st client_fd args =
     (st, [send_response client_fd ''501 Syntax error in parameters.''])"
  by (auto simp: handle_port_command_def split: list.splits)

text \<open>
  Claim C6, as the source has it. The PORT argument is scanned as six decimal integers
  separated by commas, each stored in a C \<^verbatim>\<open>int\<close>, and nothing checks their range.
  Whenever six integers are scanned, whatever their values, the session stores the
  address text \<^verbatim>\<open>h1.h2.h3.h4\<close> and the port \<^verbatim>\<open>p1 * 256 + p2\<close> as a 32-bit \<^verbatim>\<open>int\<close> (the number
  \<^verbatim>\<open>p1 * 256 + p2\<close> itself when it is in the range of \<^verbatim>\<open>int\<close>), and the reply is 200. An
  argument from which fewer than six integers can be scanned is answered with 501 and
  changes nothing. The text \<^verbatim>\<open>n1,n2,n3,n4,n5,n6\<close> of six natural numbers, none above
  2147483647, is scanned as those six numbers.
\<close>

theorem port_stores_six_unchecked_integers:
  assumes "get_session_index (client_sessions st) client_fd = Some i"
  shows "(sscanf_6d args = [h1, h2, h3, h4, p1, p2] \<longrightarrow>
          handle_port_command st client_fd args =
            (set_session st i
               ((client_sessions st ! i)
                  \<lparr>data_ip := dec_int h1 @ ''.'' @ dec_int h2 @ ''.'' @ dec_int h3 @ ''.'' @
                              dec_int h4,
                   data_port := int32 (p1 * 256 + p2)\<rparr>),
             [send_response client_fd ''200 PORT command successful.''])) \<and>
         (c_int (p1 * 256 + p2) \<longrightarrow> int32 (p1 * 256 + p2) = p1 * 256 + p2) \<and>
         list_all c_int (sscanf_6d args) \<and>
         (length (sscanf_6d args) \<noteq> 6 \<longrightarrow>
          handle_port_command st client_fd args =
            (st, [send_response client_fd ''501 Syntax error in parameters.''])) \<and>
         (list_all (\<lambda>n. n \<le> 2147483647) [n1, n2, n3, n4, n5, n6] \<longrightarrow>
          sscanf_6d (port_args n1 n2 n3 n4 n5 n6) =
            [int n1, int n2, int n3, int n4, int n5, int n6])"
  using port_six[OF assms, of args h1 h2 h3 h4 p1 p2] port_fewer[OF assms, of args]
    sscanf_6d_port_args[of n1 n2 n3 n4 n5 n6] int32_id[of "p1 * 256 + p2"]
    scan_d_commas_range[of 6 args]
  unfolding sscanf_6d_def[symmetric]
  by blast

lemma sscanf_6d_short: "sscanf_6d ''1,2,3'' = [1, 2, 3]"
  by (simp add: sscanf_6d_def eval_nat_numeral scan_d_def isdigit_def isspace_def
      digit_val_def Let_def int32_def strtol_def)

lemma ex_port_args: "port_args 10 0 0 2 4 1 = ''10,0,0,2,4,1''"
  by (simp add: port_args_def)

theorem port_stores_six_unchecked_integers_witness:
  "get_session_index (client_sessions (ex_server ex_alice)) 5 = Some 0 \<and>
   list_all (\<lambda>n. n \<le> 2147483647) [10, 0, 0, 2, 4, 1::nat] \<and>
   sscanf_6d ''10,0,0,2,4,1'' = [10, 0, 0, 2, 4, 1] \<and>
   c_int (4 * 256 + 1) \<and>
   handle_port_command (ex_server ex_alice) 5 ''10,0,0,2,4,1'' =
     (ex_server (ex_alice\<lparr>data_ip := ''10.0.0.2'', data_port := 1025\<rparr>),
      [send_response 5 ''200 PORT command successful.'']) \<and>
   length (sscanf_6d ''1,2,3'') \<noteq> 6 \<and>
   handle_port_command (ex_server ex_alice) 5 ''1,2,3'' =
     (ex_server ex_alice, [send_response 5 ''501 Syntax error in parameters.''])"
proof -
  have b: "list_all (\<lambda>n. n \<le> 2147483647) [10, 0, 0, 2, 4, 1::nat]"
    by simp
  have r: "c_int (4 * 256 + 1)"
    by (simp add: c_int_def)
  note t = port_stores_six_unchecked_integers[OF ex_index_alice,
      of "''10,0,0,2,4,1''" 10 0 0 2 4 1 10 0 0 2 4 1]
  note t1 = t[THEN conjunct1]
  note t2 = t[THEN conjunct2, THEN conjunct1, THEN mp, OF r]
  note t5 = t[THEN conjunct2, THEN conjunct2, THEN conjunct2, THEN conjunct2, THEN mp, OF b]
  from t5 have scan: "sscanf_6d ''10,0,0,2,4,1'' = [10, 0, 0, 2, 4, 1]"
    unfolding ex_port_args by simp
  from t1 scan t2 have ok: "handle_port_command (ex_server ex_alice) 5 ''10,0,0,2,4,1'' =
     (ex_server (ex_alice\<lparr>data_ip := ''10.0.0.2'', data_port := 1025\<rparr>),
      [send_response 5 ''200 PORT command successful.''])"
    by (simp add: ex_set_session)
  have s: "length (sscanf_6d ''1,2,3'') \<noteq> 6"
    by (simp add: sscanf_6d_short)
  note u = port_stores_six_unchecked_integers[OF ex_index_alice,
      of "''1,2,3''", THEN conjunct2, THEN conjunct2, THEN conjunct2, THEN conjunct1, THEN mp,
      OF s]
  from b r scan ok s u ex_index_alice show ?thesis by blast
qed

text \<open>The claim as the specification words it fails: the octet 256 is accepted with
  reply 200, and the pending endpoint of Alice (127.0.0.1, port 5000) is overwritten.\<close>

lemma sscanf_6d_256: "sscanf_6d ''256,0,0,1,0,0'' = [256, 0, 0, 1, 0, 0]"
  by (simp add: sscanf_6d_def eval_nat_numeral scan_d_def isdigit_def isspace_def
      digit_val_def Let_def int32_def strtol_def)

theorem port_octet_256_accepted:
  "replies (snd (handle_port_command (ex_server ex_alice) 5 ''256,0,0,1,0,0'')) =
     [''200 PORT command successful.'' @ CRLF] \<and>
   data_ip (client_sessions (fst (handle_port_command (ex_server ex_alice) 5 ''256,0,0,1,0,0'')) ! 0) =
     ''256.0.0.1'' \<and>
   data_port (client_sessions (fst (handle_port_command (ex_server ex_alice) 5 ''256,0,0,1,0,0'')) ! 0) =
     0"
  unfolding port_six[OF ex_index_alice sscanf_6d_256]
  by (simp add: send_response_def int32_def)

section \<open>The data-bearing handlers\<close>

lemma replies_append [simp]: "replies (xs @ ys) = replies xs @ replies ys"
  by (induction xs rule: replies.induct) simp_all

lemma replies_DataWrite [simp]: "replies (map DataWrite bs) = []"
  by (induction bs) simp_all

lemma replies_names [simp]: "replies (map (\<lambda>name. DataWrite (f name)) ns) = []"
  by (induction ns) simp_all

lemma replies_socket_calls [simp]: "replies (socket_calls v) = []"
  by (simp add: socket_calls_def)

lemma replies_send [simp]: "replies (send_response fd t # es) = (t @ CRLF) # replies es"
  by (simp add: send_response_def)

lemmas reply_defs = r425_def r425_bind_def r150_def r451_def r226_def

text \<open>What each worker does is independent of the control channel: it sends no reply,
  and makes no \<^verbatim>\<open>bind\<close> or \<^verbatim>\<open>connect\<close> of its own.\<close>

lemma list_child_events:
  "replies (fst (list_child v e f dir)) = []"
  "Bind q \<notin> set (fst (list_child v e f dir))"
  "Connect ip p \<notin> set (fst (list_child v e f dir))"
  "snd (list_child v e f dir) = 0"
  by (auto simp: list_child_def)

lemma retr_child_events:
  "replies (fst (retr_child e path content)) = []"
  "Bind q \<notin> set (fst (retr_child e path content))"
  "Connect ip p \<notin> set (fst (retr_child e path content))"
  by (auto simp: retr_child_def)

lemma stor_child_events:
  "replies (fst (snd (stor_child e f temp final))) = []"
  "Bind q \<notin> set (fst (snd (stor_child e f temp final)))"
  "Connect ip p \<notin> set (fst (snd (stor_child e f temp final)))"
  by (auto simp: stor_child_def Let_def split: prod.splits bool.splits)

text \<open>The two outcomes of each handler for a session with a pending endpoint: a worker
  was forked, or the handler returned before that and left the server as it was.\<close>

lemma list_forked:
  assumes "get_session_index (client_sessions st) client_fd = Some i"
    and "data_port (client_sessions st ! i) \<noteq> - 1"
    and "calls_ok v e"
  shows "handle_list_command v e st client_fd =
     (set_session st i (reset_data (client_sessions st ! i)),
      socket_calls v @
      [r150 client_fd,
       Connect (data_ip (client_sessions st ! i)) (data_port (client_sessions st ! i) mod 65536),
       Fork, CloseData] @
      fst (list_child v e (fs st) (current_dir (client_sessions st ! i))) @
      [Exit (snd (list_child v e (fs st) (current_dir (client_sessions st ! i)))),
       r226 client_fd])"
  using assms
  by (cases v) (simp_all add: handle_list_command_def calls_ok_def Let_def split: prod.splits)

lemma list_not_forked:
  assumes "\<not> calls_ok v e"
  shows "fst (handle_list_command v e st client_fd) = st"
    and "Exit n \<notin> set (snd (handle_list_command v e st client_fd))"
    and "r226 client_fd \<notin> set (snd (handle_list_command v e st client_fd))"
  using assms
  by (cases v; auto simp: handle_list_command_def calls_ok_def Let_def socket_calls_def
      reply_defs send_response_def split: option.splits)+

lemma retr_forked:
  assumes "get_session_index (client_sessions st) client_fd = Some i"
    and "data_port (client_sessions st ! i) \<noteq> - 1"
    and "calls_ok v e"
    and "files (fs st) (current_dir (client_sessions st ! i) @ ''/'' @ filename) = Some content"
  shows "handle_retr_command v e st client_fd filename =
     (set_session st i (reset_data (client_sessions st ! i)),
      socket_calls v @
      [Fopen (current_dir (client_sessions st ! i) @ ''/'' @ filename) ''rb'', r150 client_fd,
       Connect (data_ip (client_sessions st ! i)) (data_port (client_sessions st ! i) mod 65536),
       Fork, CloseData] @
      fst (retr_child e (current_dir (client_sessions st ! i) @ ''/'' @ filename) content) @
      [Exit (snd (retr_child e (current_dir (client_sessions st ! i) @ ''/'' @ filename) content)),
       r226 client_fd])"
  using assms
  by (cases v) (simp_all add: handle_retr_command_def calls_ok_def Let_def split: prod.splits)

lemma retr_missing:
  assumes "get_session_index (client_sessions st) client_fd = Some i"
    and "data_port (client_sessions st ! i) \<noteq> - 1"
    and "socket_ok e" and "setsockopt_ok e" and "v = Server_c \<or> bind_ok e"
    and "files (fs st) (current_dir (client_sessions st ! i) @ ''/'' @ filename) = None"
  shows "handle_retr_command v e st client_fd filename =
     (st, socket_calls v @
          [Fopen (current_dir (client_sessions st ! i) @ ''/'' @ filename) ''rb'',
           send_response client_fd ''550 No such file or directory.'', CloseData])"
  using assms
  by (cases v) (auto simp: handle_retr_command_def Let_def)

lemma retr_not_forked:
  assumes "\<not> calls_ok v e \<or>
           (\<exists>i. get_session_index (client_sessions st) client_fd = Some i \<and>
                files (fs st) (current_dir (client_sessions st ! i) @ ''/'' @ filename) = None)"
  shows "fst (handle_retr_command v e st client_fd filename) = st"
    and "Exit n \<notin> set (snd (handle_retr_command v e st client_fd filename))"
    and "r226 client_fd \<notin> set (snd (handle_retr_command v e st client_fd filename))"
  using assms
  by (cases v; auto simp: handle_retr_command_def calls_ok_def Let_def socket_calls_def
      reply_defs send_response_def split: option.splits)+

lemma stor_forked:
  assumes "get_session_index (client_sessions st) client_fd = Some i"
    and "data_port (client_sessions st ! i) \<noteq> - 1"
    and "calls_ok v e"
  shows "handle_stor_command v e st client_fd filename =
     ((set_session st i (reset_data (client_sessions st ! i)))
        \<lparr>fs := fst (stor_child e (fs st)
                      (current_dir (client_sessions st ! i) @ ''/tmp_'' @ dec_int (now e) @ ''_'' @
                       filename)
                      (current_dir (client_sessions st ! i) @ ''/'' @ filename))\<rparr>,
      socket_calls v @
      [r150 client_fd,
       Connect (data_ip (client_sessions st ! i)) (data_port (client_sessions st ! i) mod 65536),
       Fork, CloseData] @
      fst (snd (stor_child e (fs st)
                  (current_dir (client_sessions st ! i) @ ''/tmp_'' @ dec_int (now e) @ ''_'' @
                   filename)
                  (current_dir (client_sessions st ! i) @ ''/'' @ filename))) @
      [Exit (snd (snd (stor_child e (fs st)
                  (current_dir (client_sessions st ! i) @ ''/tmp_'' @ dec_int (now e) @ ''_'' @
                   filename)
                  (current_dir (client_sessions st ! i) @ ''/'' @ filename)))),
       r226 client_fd])"
  using assms
  by (cases v) (simp_all add: handle_stor_command_def calls_ok_def Let_def split: prod.splits)

lemma stor_not_forked:
  assumes "\<not> calls_ok v e"
  shows "fst (handle_stor_command v e st client_fd filename) = st"
    and "Exit n \<notin> set (snd (handle_stor_command v e st client_fd filename))"
    and "r226 client_fd \<notin> set (snd (handle_stor_command v e st client_fd filename))"
  using assms
  by (cases v; auto simp: handle_stor_command_def calls_ok_def Let_def socket_calls_def
      reply_defs send_response_def split: option.splits)+

subsection \<open>The concrete server on the data channel\<close>

lemma ex_canonical:
  "canonical ''/srv/alice/nope.txt'' = ''/srv/alice/nope.txt''"
  "canonical ''/srv/alice/hello.txt'' = ''/srv/alice/hello.txt''"
  "canonical ''/srv/alice/../../etc/passwd'' = ''/etc/passwd''"
  "canonical ''/srv/alice/../..'' = ''/''"
  "canonical ''/srv/alice'' = ''/srv/alice''"
  by (simp_all add: canonical_def)

lemma ex_files:
  "files ex_fs ''/srv/alice/nope.txt'' = None"
  "files ex_fs ''/srv/alice/hello.txt'' = Some ''hello''"
  "files ex_fs ''/srv/alice/../../etc/passwd'' = Some ''root:x:0:0''"
  by (simp_all add: ex_fs_def ex_canonical)

lemma ex_calls_ok: "calls_ok v ex_io"
  by (simp add: calls_ok_def ex_io_def)

lemma ex_pending: "data_port (client_sessions (ex_server ex_alice) ! 0) \<noteq> - 1"
  by (simp add: ex_alice_def)

lemma ex_alice_fields [simp]:
  "current_dir ex_alice = ''/srv/alice''" "data_ip ex_alice = ''127.0.0.1''"
  "data_port ex_alice = 5000" "username ex_alice = ''alice''" "root_dir ex_alice = ''/srv''"
  "authenticated ex_alice = 1" "control_fd ex_alice = 5"
  by (simp_all add: ex_alice_def)

lemma ex_retr_nope:
  "handle_retr_command Part_000 ex_io (ex_server ex_alice) 5 ''nope.txt'' =
     (ex_server ex_alice,
      [Socket, Setsockopt, Bind 20, Fopen ''/srv/alice/nope.txt'' ''rb'',
       send_response 5 ''550 No such file or directory.'', CloseData])"
  using retr_missing[OF ex_index_alice ex_pending, of ex_io Part_000 "''nope.txt''"]
  by (simp add: ex_files socket_calls_def) (simp add: ex_io_def)

lemma ex_retr_hello:
  "snd (handle_retr_command v ex_io (ex_server ex_alice) 5 ''hello.txt'') =
     socket_calls v @
     [Fopen ''/srv/alice/hello.txt'' ''rb'', r150 5, Connect ''127.0.0.1'' 5000, Fork, CloseData,
      Fopen ''/srv/alice/hello.txt'' ''rb'', DataWrite ''hello'', CloseData, Exit 0, r226 5]"
  using retr_forked[OF ex_index_alice ex_pending ex_calls_ok, of "''hello.txt''" "''hello''" v]
  by (simp add: ex_files retr_child_def chunks.simps BUFFER_SIZE_def) (simp add: ex_io_def)

section \<open>When the pending endpoint is cleared\<close>

text \<open>
  Claim C3, as the source has it. For a LIST, RETR or STOR on a session with a pending
  endpoint, the endpoint is cleared (\<^verbatim>\<open>data_port = -1\<close>, \<^verbatim>\<open>data_ip\<close> empty) exactly when
  every call up to and including \<^verbatim>\<open>fork\<close> succeeded (and, for RETR, the file could be
  opened). On every earlier failure (socket creation, socket option, the bind of
  \<^verbatim>\<open>part_000\<close>, the existence check of RETR, connect, fork) the session table is left as
  it was, so the endpoint stays pending and the next data command uses it again.
\<close>

theorem endpoint_cleared_only_after_fork:
  assumes "get_session_index (client_sessions st) client_fd = Some i"
    and "data_port (client_sessions st ! i) \<noteq> - 1"
  shows "client_sessions (fst (handle_list_command v e st client_fd)) =
           (if calls_ok v e
            then (client_sessions st)[i := reset_data (client_sessions st ! i)]
            else client_sessions st) \<and>
         client_sessions (fst (handle_retr_command v e st client_fd filename)) =
           (if calls_ok v e \<and>
               files (fs st) (current_dir (client_sessions st ! i) @ ''/'' @ filename) \<noteq> None
            then (client_sessions st)[i := reset_data (client_sessions st ! i)]
            else client_sessions st) \<and>
         client_sessions (fst (handle_stor_command v e st client_fd filename)) =
           (if calls_ok v e
            then (client_sessions st)[i := reset_data (client_sessions st ! i)]
            else client_sessions st) \<and>
         data_port (reset_data (client_sessions st ! i)) = - 1 \<and>
         data_ip (reset_data (client_sessions st ! i)) = []"
proof -
  have l: "client_sessions (fst (handle_list_command v e st client_fd)) =
           (if calls_ok v e
            then (client_sessions st)[i := reset_data (client_sessions st ! i)]
            else client_sessions st)"
    using list_forked[OF assms, of v e] list_not_forked(1)[of v e st client_fd]
    by (simp add: set_session_def)
  have r: "client_sessions (fst (handle_retr_command v e st client_fd filename)) =
           (if calls_ok v e \<and>
               files (fs st) (current_dir (client_sessions st ! i) @ ''/'' @ filename) \<noteq> None
            then (client_sessions st)[i := reset_data (client_sessions st ! i)]
            else client_sessions st)"
  proof (cases "calls_ok v e \<and>
      files (fs st) (current_dir (client_sessions st ! i) @ ''/'' @ filename) \<noteq> None")
    case True
    then obtain content where
      "files (fs st) (current_dir (client_sessions st ! i) @ ''/'' @ filename) = Some content"
      by auto
    with True retr_forked[OF assms, of v e filename content] show ?thesis
      by (simp add: set_session_def)
  next
    case False
    with assms(1) retr_not_forked(1)[of v e st client_fd filename] show ?thesis
      by auto
  qed
  have s: "client_sessions (fst (handle_stor_command v e st client_fd filename)) =
           (if calls_ok v e
            then (client_sessions st)[i := reset_data (client_sessions st ! i)]
            else client_sessions st)"
    using stor_forked[OF assms, of v e filename] stor_not_forked(1)[of v e st client_fd filename]
    by (simp add: set_session_def)
  from l r s show ?thesis by (simp add: reset_data_def)
qed

theorem endpoint_cleared_only_after_fork_witness:
  "get_session_index (client_sessions (ex_server ex_alice)) 5 = Some 0 \<and>
   data_port (client_sessions (ex_server ex_alice) ! 0) \<noteq> - 1 \<and>
   client_sessions (fst (handle_list_command Part_000 ex_io (ex_server ex_alice) 5)) ! 0 =
     reset_data ex_alice \<and>
   client_sessions (fst (handle_retr_command Part_000 ex_io (ex_server ex_alice) 5 ''nope.txt'')) ! 0 =
     ex_alice \<and>
   client_sessions (fst (handle_stor_command Part_000 ex_io (ex_server ex_alice) 5 ''nope.txt'')) ! 0 =
     reset_data ex_alice"
proof -
  note t = endpoint_cleared_only_after_fork[OF ex_index_alice ex_pending,
      of Part_000 ex_io "''nope.txt''"]
  have u: "((client_sessions (ex_server ex_alice))[0 := reset_data ex_alice]) ! 0 =
            reset_data ex_alice"
    by (simp add: ex_server_def)
  from t have "client_sessions (fst (handle_list_command Part_000 ex_io (ex_server ex_alice) 5)) ! 0 =
     reset_data ex_alice \<and>
   client_sessions (fst (handle_retr_command Part_000 ex_io (ex_server ex_alice) 5 ''nope.txt'')) ! 0 =
     ex_alice \<and>
   client_sessions (fst (handle_stor_command Part_000 ex_io (ex_server ex_alice) 5 ''nope.txt'')) ! 0 =
     reset_data ex_alice"
    by (simp add: ex_calls_ok ex_files u)
  with ex_index_alice ex_pending show ?thesis by blast
qed

text \<open>The claim as the specification words it fails: a RETR of a missing file is
  answered with 550 and leaves the endpoint 127.0.0.1:5000 pending, and the RETR that
  follows connects to that same endpoint.\<close>

theorem failed_retr_keeps_endpoint:
  "replies (snd (handle_retr_command Part_000 ex_io (ex_server ex_alice) 5 ''nope.txt'')) =
     [''550 No such file or directory.'' @ CRLF] \<and>
   data_port
     (client_sessions
        (fst (handle_retr_command Part_000 ex_io (ex_server ex_alice) 5 ''nope.txt'')) ! 0) = 5000 \<and>
   Connect ''127.0.0.1'' 5000 \<in>
     set (snd (handle_retr_command Part_000 ex_io
                 (fst (handle_retr_command Part_000 ex_io (ex_server ex_alice) 5 ''nope.txt''))
                 5 ''hello.txt''))"
  unfolding ex_retr_nope fst_conv snd_conv ex_retr_hello
  by (simp add: send_response_def)

section \<open>The reply after the worker\<close>

lemma child_no_exit:
  "Exit n \<notin> set (fst (list_child v e f dir))"
  "Exit n \<notin> set (fst (retr_child e path content))"
  "Exit n \<notin> set (fst (snd (stor_child e f temp final)))"
  by (auto simp: list_child_def retr_child_def stor_child_def Let_def
      split: prod.splits bool.splits)

lemma drop_last_two: "drop (length (xs @ [a, b]) - 2) (xs @ [a, b]) = [a, b]"
  by simp

lemma list_replies:
  "replies (snd (handle_list_command v e st client_fd)) =
     (case get_session_index (client_sessions st) client_fd of
          None \<Rightarrow> [''425 Can't open data connection.'' @ CRLF]
        | Some i \<Rightarrow>
            if data_port (client_sessions st ! i) = - 1 \<or> \<not> socket_ok e \<or> \<not> setsockopt_ok e
            then [''425 Can't open data connection.'' @ CRLF]
            else if v = Part_000 \<and> \<not> bind_ok e
            then [''425 Can't open data connection (bind 20).'' @ CRLF]
            else if \<not> connect_ok e
            then [''150 File status okay; about to open data connection.'' @ CRLF,
                  ''425 Can't open data connection.'' @ CRLF]
            else if \<not> fork_ok e
            then [''150 File status okay; about to open data connection.'' @ CRLF,
                  ''451 Requested action aborted: local error in processing.'' @ CRLF]
            else [''150 File status okay; about to open data connection.'' @ CRLF,
                  ''226 Transfer complete.'' @ CRLF])"
  by (cases v)
     (auto simp: handle_list_command_def Let_def reply_defs socket_calls_def list_child_events
        case_prod_beta split: option.splits)

lemma retr_replies:
  "replies (snd (handle_retr_command v e st client_fd filename)) =
     (case get_session_index (client_sessions st) client_fd of
          None \<Rightarrow> [''425 Can't open data connection.'' @ CRLF]
        | Some i \<Rightarrow>
            if data_port (client_sessions st ! i) = - 1 \<or> \<not> socket_ok e \<or> \<not> setsockopt_ok e
            then [''425 Can't open data connection.'' @ CRLF]
            else if v = Part_000 \<and> \<not> bind_ok e
            then [''425 Can't open data connection (bind 20).'' @ CRLF]
            else if files (fs st) (current_dir (client_sessions st ! i) @ ''/'' @ filename) = None
            then [''550 No such file or directory.'' @ CRLF]
            else if \<not> connect_ok e
            then [''150 File status okay; about to open data connection.'' @ CRLF,
                  ''425 Can't open data connection.'' @ CRLF]
            else if \<not> fork_ok e
            then [''150 File status okay; about to open data connection.'' @ CRLF,
                  ''451 Requested action aborted: local error in processing.'' @ CRLF]
            else [''150 File status okay; about to open data connection.'' @ CRLF,
                  ''226 Transfer complete.'' @ CRLF])"
  by (cases v)
     (auto simp: handle_retr_command_def Let_def reply_defs socket_calls_def retr_child_events
        case_prod_beta split: option.splits)

lemma stor_replies:
  "replies (snd (handle_stor_command v e st client_fd filename)) =
     (case get_session_index (client_sessions st) client_fd of
          None \<Rightarrow> [''425 Can't open data connection.'' @ CRLF]
        | Some i \<Rightarrow>
            if data_port (client_sessions st ! i) = - 1 \<or> \<not> socket_ok e \<or> \<not> setsockopt_ok e
            then [''425 Can't open data connection.'' @ CRLF]
            else if v = Part_000 \<and> \<not> bind_ok e
            then [''425 Can't open data connection (bind 20).'' @ CRLF]
            else if \<not> connect_ok e
            then [''150 File status okay; about to open data connection.'' @ CRLF,
                  ''425 Can't open data connection.'' @ CRLF]
            else if \<not> fork_ok e
            then [''150 File status okay; about to open data connection.'' @ CRLF,
                  ''451 Requested action aborted: local error in processing.'' @ CRLF]
            else [''150 File status okay; about to open data connection.'' @ CRLF,
                  ''226 Transfer complete.'' @ CRLF])"
  by (cases v)
     (auto simp: handle_stor_command_def Let_def reply_defs socket_calls_def stor_child_events
        case_prod_beta split: option.splits)

text \<open>When a worker has exited, the handler's last two actions are the worker's exit and
  the reply 226.\<close>

lemma list_exit_226:
  assumes "Exit n \<in> set (snd (handle_list_command v e st client_fd))"
  shows "drop (length (snd (handle_list_command v e st client_fd)) - 2) (snd (handle_list_command v e st client_fd)) = [Exit n, r226 client_fd]"
proof -
  from assms have ok: "calls_ok v e"
    using list_not_forked(2)[of v e n st client_fd] by blast
  from assms obtain i where i: "get_session_index (client_sessions st) client_fd = Some i"
    and p: "data_port (client_sessions st ! i) \<noteq> - 1"
    by (auto simp: handle_list_command_def reply_defs send_response_def Let_def
        split: option.splits if_splits)
  let ?c = "list_child v e (fs st) (current_dir (client_sessions st ! i))"
  have ev: "snd (handle_list_command v e st client_fd) =
      (socket_calls v @
       [r150 client_fd,
        Connect (data_ip (client_sessions st ! i)) (data_port (client_sessions st ! i) mod 65536),
        Fork, CloseData] @ fst ?c) @ [Exit (snd ?c), r226 client_fd]"
    unfolding list_forked[OF i p ok] by simp
  from assms have "n = snd ?c"
    unfolding ev using child_no_exit(1)[of n v e "fs st" "current_dir (client_sessions st ! i)"]
    by (auto simp: socket_calls_def reply_defs send_response_def)
  then show ?thesis
    unfolding ev by (simp only: drop_last_two)
qed

lemma retr_exit_226:
  assumes "Exit n \<in> set (snd (handle_retr_command v e st client_fd filename))"
  shows "drop (length (snd (handle_retr_command v e st client_fd filename)) - 2) (snd (handle_retr_command v e st client_fd filename)) = [Exit n, r226 client_fd]"
proof -
  from assms have ok: "calls_ok v e"
    using retr_not_forked(2)[of v e st client_fd filename n] by blast
  from assms obtain i where i: "get_session_index (client_sessions st) client_fd = Some i"
    and p: "data_port (client_sessions st ! i) \<noteq> - 1"
    by (auto simp: handle_retr_command_def reply_defs send_response_def Let_def
        split: option.splits if_splits)
  let ?path = "current_dir (client_sessions st ! i) @ ''/'' @ filename"
  have "files (fs st) ?path \<noteq> None"
  proof
    assume "files (fs st) ?path = None"
    with i have "Exit n \<notin> set (snd (handle_retr_command v e st client_fd filename))"
      by (intro retr_not_forked(2)) blast
    with assms show False by simp
  qed
  then obtain content where c: "files (fs st) ?path = Some content"
    by blast
  let ?c = "retr_child e ?path content"
  have ev: "snd (handle_retr_command v e st client_fd filename) =
      (socket_calls v @
       [Fopen ?path ''rb'', r150 client_fd,
        Connect (data_ip (client_sessions st ! i)) (data_port (client_sessions st ! i) mod 65536),
        Fork, CloseData] @ fst ?c) @ [Exit (snd ?c), r226 client_fd]"
    unfolding retr_forked[OF i p ok c] by simp
  from assms have "n = snd ?c"
    unfolding ev using child_no_exit(2)[of n e ?path content]
    by (auto simp: socket_calls_def reply_defs send_response_def)
  then show ?thesis
    unfolding ev by (simp only: drop_last_two)
qed

lemma stor_exit_226:
  assumes "Exit n \<in> set (snd (handle_stor_command v e st client_fd filename))"
  shows "drop (length (snd (handle_stor_command v e st client_fd filename)) - 2) (snd (handle_stor_command v e st client_fd filename)) = [Exit n, r226 client_fd]"
proof -
  from assms have ok: "calls_ok v e"
    using stor_not_forked(2)[of v e n st client_fd filename] by blast
  from assms obtain i where i: "get_session_index (client_sessions st) client_fd = Some i"
    and p: "data_port (client_sessions st ! i) \<noteq> - 1"
    by (auto simp: handle_stor_command_def reply_defs send_response_def Let_def
        split: option.splits if_splits)
  let ?c = "stor_child e (fs st)
              (current_dir (client_sessions st ! i) @ ''/tmp_'' @ dec_int (now e) @ ''_'' @ filename)
              (current_dir (client_sessions st ! i) @ ''/'' @ filename)"
  have ev: "snd (handle_stor_command v e st client_fd filename) =
      (socket_calls v @
       [r150 client_fd,
        Connect (data_ip (client_sessions st ! i)) (data_port (client_sessions st ! i) mod 65536),
        Fork, CloseData] @ fst (snd ?c)) @ [Exit (snd (snd ?c)), r226 client_fd]"
    unfolding stor_forked[OF i p ok] by simp
  from assms have "n = snd (snd ?c)"
    unfolding ev
    using child_no_exit(3)[of n e "fs st"
        "current_dir (client_sessions st ! i) @ ''/tmp_'' @ dec_int (now e) @ ''_'' @ filename"
        "current_dir (client_sessions st ! i) @ ''/'' @ filename"]
    by (auto simp: socket_calls_def reply_defs send_response_def)
  then show ?thesis
    unfolding ev by (simp only: drop_last_two)
qed

text \<open>
  Claim C4, as the source has it. The replies of a LIST, RETR or STOR are decided by the
  calls the handler itself makes, in this order: 425 when the descriptor has no
  session, no endpoint is pending, or \<^verbatim>\<open>socket\<close> or \<^verbatim>\<open>setsockopt\<close> fails; 425 when the bind of
  \<^verbatim>\<open>part_000\<close> fails; for RETR, 550 when the file cannot be opened; then 150, followed by
  425 when \<^verbatim>\<open>connect\<close> fails, by 451 when \<^verbatim>\<open>fork\<close> fails, and by 226 otherwise. So once a
  worker was forked the replies are 150 and 226 whatever the worker does: the handler
  waits for it without reading its exit status, and whenever the worker has exited with
  a status \<open>n\<close> the last two actions of the handler are that exit and the reply 226.
\<close>

theorem reply_226_for_every_exit_status:
  "replies (snd (handle_list_command v e st client_fd)) =
     (case get_session_index (client_sessions st) client_fd of
          None \<Rightarrow> [''425 Can't open data connection.'' @ CRLF]
        | Some i \<Rightarrow>
            if data_port (client_sessions st ! i) = - 1 \<or> \<not> socket_ok e \<or> \<not> setsockopt_ok e
            then [''425 Can't open data connection.'' @ CRLF]
            else if v = Part_000 \<and> \<not> bind_ok e
            then [''425 Can't open data connection (bind 20).'' @ CRLF]
            else if \<not> connect_ok e
            then [''150 File status okay; about to open data connection.'' @ CRLF,
                  ''425 Can't open data connection.'' @ CRLF]
            else if \<not> fork_ok e
            then [''150 File status okay; about to open data connection.'' @ CRLF,
                  ''451 Requested action aborted: local error in processing.'' @ CRLF]
            else [''150 File status okay; about to open data connection.'' @ CRLF,
                  ''226 Transfer complete.'' @ CRLF]) \<and>
   replies (snd (handle_retr_command v e st client_fd filename)) =
     (case get_session_index (client_sessions st) client_fd of
          None \<Rightarrow> [''425 Can't open data connection.'' @ CRLF]
        | Some i \<Rightarrow>
            if data_port (client_sessions st ! i) = - 1 \<or> \<not> socket_ok e \<or> \<not> setsockopt_ok e
            then [''425 Can't open data connection.'' @ CRLF]
            else if v = Part_000 \<and> \<not> bind_ok e
            then [''425 Can't open data connection (bind 20).'' @ CRLF]
            else if files (fs st) (current_dir (client_sessions st ! i) @ ''/'' @ filename) = None
            then [''550 No such file or directory.'' @ CRLF]
            else if \<not> connect_ok e
            then [''150 File status okay; about to open data connection.'' @ CRLF,
                  ''425 Can't open data connection.'' @ CRLF]
            else if \<not> fork_ok e
            then [''150 File status okay; about to open data connection.'' @ CRLF,
                  ''451 Requested action aborted: local error in processing.'' @ CRLF]
            else [''150 File status okay; about to open data connection.'' @ CRLF,
                  ''226 Transfer complete.'' @ CRLF]) \<and>
   replies (snd (handle_stor_command v e st client_fd filename)) =
     (case get_session_index (client_sessions st) client_fd of
          None \<Rightarrow> [''425 Can't open data connection.'' @ CRLF]
        | Some i \<Rightarrow>
            if data_port (client_sessions st ! i) = - 1 \<or> \<not> socket_ok e \<or> \<not> setsockopt_ok e
            then [''425 Can't open data connection.'' @ CRLF]
            else if v = Part_000 \<and> \<not> bind_ok e
            then [''425 Can't open data connection (bind 20).'' @ CRLF]
            else if \<not> connect_ok e
            then [''150 File status okay; about to open data connection.'' @ CRLF,
                  ''425 Can't open data connection.'' @ CRLF]
            else if \<not> fork_ok e
            then [''150 File status okay; about to open data connection.'' @ CRLF,
                  ''451 Requested action aborted: local error in processing.'' @ CRLF]
            else [''150 File status okay; about to open data connection.'' @ CRLF,
                  ''226 Transfer complete.'' @ CRLF]) \<and>
   (Exit n \<in> set (snd (handle_list_command v e st client_fd)) \<longrightarrow>
      drop (length (snd (handle_list_command v e st client_fd)) - 2)
        (snd (handle_list_command v e st client_fd)) =
        [Exit n, r226 client_fd]) \<and>
   (Exit n \<in> set (snd (handle_retr_command v e st client_fd filename)) \<longrightarrow>
      drop (length (snd (handle_retr_command v e st client_fd filename)) - 2)
        (snd (handle_retr_command v e st client_fd filename)) =
        [Exit n, r226 client_fd]) \<and>
   (Exit n \<in> set (snd (handle_stor_command v e st client_fd filename)) \<longrightarrow>
      drop (length (snd (handle_stor_command v e st client_fd filename)) - 2)
        (snd (handle_stor_command v e st client_fd filename)) =
        [Exit n, r226 client_fd])"
  using list_replies[of v e st client_fd] retr_replies[of v e st client_fd filename]
    stor_replies[of v e st client_fd filename] list_exit_226[of n v e st client_fd]
    retr_exit_226[of n v e st client_fd filename] stor_exit_226[of n v e st client_fd filename]
  by blast

lemma ex_retr_vanished:
  "snd (handle_retr_command Part_000 (ex_io\<lparr>vanished := True\<rparr>) (ex_server ex_alice) 5
          ''hello.txt'') =
     [Socket, Setsockopt, Bind 20, Fopen ''/srv/alice/hello.txt'' ''rb'', r150 5,
      Connect ''127.0.0.1'' 5000, Fork, CloseData, Fopen ''/srv/alice/hello.txt'' ''rb'',
      CloseData, Exit 1, r226 5]"
proof -
  have ok: "calls_ok Part_000 (ex_io\<lparr>vanished := True\<rparr>)"
    by (simp add: calls_ok_def ex_io_def)
  show ?thesis
    using retr_forked[OF ex_index_alice ex_pending ok, of "''hello.txt''" "''hello''"]
    by (simp add: ex_files retr_child_def socket_calls_def)
qed

theorem reply_226_for_every_exit_status_witness:
  "Exit 1 \<in> set (snd (handle_retr_command Part_000 (ex_io\<lparr>vanished := True\<rparr>)
                       (ex_server ex_alice) 5 ''hello.txt'')) \<and>
   replies (snd (handle_retr_command Part_000 (ex_io\<lparr>vanished := True\<rparr>)
                   (ex_server ex_alice) 5 ''hello.txt'')) =
     [''150 File status okay; about to open data connection.'' @ CRLF,
      ''226 Transfer complete.'' @ CRLF] \<and>
   drop (length (snd (handle_retr_command Part_000 (ex_io\<lparr>vanished := True\<rparr>)
                       (ex_server ex_alice) 5 ''hello.txt'')) - 2)
     (snd (handle_retr_command Part_000 (ex_io\<lparr>vanished := True\<rparr>)
             (ex_server ex_alice) 5 ''hello.txt'')) =
     [Exit 1, r226 5] \<and>
   replies (snd (handle_stor_command Part_000 (ex_io\<lparr>fork_ok := False\<rparr>)
                   (ex_server ex_alice) 5 ''doc.bin'')) =
     [''150 File status okay; about to open data connection.'' @ CRLF,
      ''451 Requested action aborted: local error in processing.'' @ CRLF] \<and>
   replies (snd (handle_retr_command Part_000 ex_io (ex_server ex_alice) 5 ''nope.txt'')) =
     [''550 No such file or directory.'' @ CRLF]"
proof -
  have x: "Exit 1 \<in> set (snd (handle_retr_command Part_000 (ex_io\<lparr>vanished := True\<rparr>)
                       (ex_server ex_alice) 5 ''hello.txt''))"
    unfolding ex_retr_vanished by simp
  note t = reply_226_for_every_exit_status[where v=Part_000 and e="ex_io\<lparr>vanished := True\<rparr>"
      and st="ex_server ex_alice" and client_fd=5 and filename="''hello.txt''" and n=1]
  note u = reply_226_for_every_exit_status[where v=Part_000 and e="ex_io\<lparr>fork_ok := False\<rparr>"
      and st="ex_server ex_alice" and client_fd=5 and filename="''doc.bin''"]
  note w = reply_226_for_every_exit_status[where v=Part_000 and e=ex_io
      and st="ex_server ex_alice" and client_fd=5 and filename="''nope.txt''"]
  have io: "socket_ok ex_io" "setsockopt_ok ex_io" "bind_ok ex_io" "connect_ok ex_io"
    "fork_ok ex_io"
    by (simp_all add: ex_io_def)
  from t[THEN conjunct2, THEN conjunct1]
  have a: "replies (snd (handle_retr_command Part_000 (ex_io\<lparr>vanished := True\<rparr>)
                   (ex_server ex_alice) 5 ''hello.txt'')) =
     [''150 File status okay; about to open data connection.'' @ CRLF,
      ''226 Transfer complete.'' @ CRLF]"
    by (simp add: ex_index_alice ex_files io)
  from t[THEN conjunct2, THEN conjunct2, THEN conjunct2, THEN conjunct2, THEN conjunct1,
      THEN mp, OF x]
  have b: "drop (length (snd (handle_retr_command Part_000 (ex_io\<lparr>vanished := True\<rparr>)
                       (ex_server ex_alice) 5 ''hello.txt'')) - 2)
     (snd (handle_retr_command Part_000 (ex_io\<lparr>vanished := True\<rparr>)
             (ex_server ex_alice) 5 ''hello.txt'')) =
     [Exit 1, r226 5]" .
  from u[THEN conjunct2, THEN conjunct2, THEN conjunct1]
  have c: "replies (snd (handle_stor_command Part_000 (ex_io\<lparr>fork_ok := False\<rparr>)
                   (ex_server ex_alice) 5 ''doc.bin'')) =
     [''150 File status okay; about to open data connection.'' @ CRLF,
      ''451 Requested action aborted: local error in processing.'' @ CRLF]"
    by (simp add: ex_index_alice io)
  from w[THEN conjunct2, THEN conjunct1]
  have d: "replies (snd (handle_retr_command Part_000 ex_io (ex_server ex_alice) 5 ''nope.txt'')) =
     [''550 No such file or directory.'' @ CRLF]"
    by (simp add: ex_index_alice ex_files io)
  from x a b c d show ?thesis by blast
qed

text \<open>The claim as the specification words it fails: on a file system where the
  temporary file cannot be created the STOR worker exits with status 1, and the final
  reply is still 226; nothing was stored.\<close>

lemma ex_readonly_index: "get_session_index (client_sessions ex_readonly) 5 = Some 0"
  using ex_index_alice by (simp add: ex_readonly_def)

lemma ex_readonly_stor:
  "handle_stor_command Part_000 ex_io ex_readonly 5 ''doc.bin'' =
     ((set_session ex_readonly 0 (reset_data ex_alice))\<lparr>fs := fs ex_readonly\<rparr>,
      [Socket, Setsockopt, Bind 20, r150 5, Connect ''127.0.0.1'' 5000, Fork, CloseData,
       Fopen ''/srv/alice/tmp_1700000000_doc.bin'' ''wb'', CloseData, Exit 1, r226 5])"
proof -
  have p: "data_port (client_sessions ex_readonly ! 0) \<noteq> - 1"
    by (simp add: ex_readonly_def)
  have s: "client_sessions ex_readonly ! 0 = ex_alice"
    by (simp add: ex_readonly_def)
  have n: "now ex_io = 1700000000"
    by (simp add: ex_io_def)
  have c: "stor_child ex_io (fs ex_readonly) ''/srv/alice/tmp_1700000000_doc.bin''
             ''/srv/alice/doc.bin'' =
           (fs ex_readonly, [Fopen ''/srv/alice/tmp_1700000000_doc.bin'' ''wb'', CloseData], 1)"
    by (simp add: stor_child_def sys_fopen_w_def ex_readonly_def)
  show ?thesis
    using stor_forked[OF ex_readonly_index p ex_calls_ok, where filename="''doc.bin''" and v=Part_000]
    by (simp add: s n c socket_calls_def)
qed

theorem worker_failure_still_226:
  "Exit 1 \<in> set (snd (handle_stor_command Part_000 ex_io ex_readonly 5 ''doc.bin'')) \<and>
   last (replies (snd (handle_stor_command Part_000 ex_io ex_readonly 5 ''doc.bin''))) =
     ''226 Transfer complete.'' @ CRLF \<and>
   files (fs (fst (handle_stor_command Part_000 ex_io ex_readonly 5 ''doc.bin'')))
     ''/srv/alice/doc.bin'' = None"
  unfolding ex_readonly_stor
  by (simp add: reply_defs) (simp add: ex_readonly_def ex_fs_def canonical_def)

section \<open>The source port of the data connection\<close>

lemma bind_fails:
  assumes "get_session_index (client_sessions st) client_fd = Some i"
    and "data_port (client_sessions st ! i) \<noteq> - 1"
    and "socket_ok e" and "setsockopt_ok e" and "\<not> bind_ok e"
  shows "handle_list_command Part_000 e st client_fd =
           (st, [Socket, Setsockopt, Bind 20, CloseData,
                 send_response client_fd ''425 Can't open data connection (bind 20).''])"
    and "handle_retr_command Part_000 e st client_fd filename =
           (st, [Socket, Setsockopt, Bind 20, CloseData,
                 send_response client_fd ''425 Can't open data connection (bind 20).''])"
    and "handle_stor_command Part_000 e st client_fd filename =
           (st, [Socket, Setsockopt, Bind 20, CloseData,
                 send_response client_fd ''425 Can't open data connection (bind 20).''])"
  using assms
  by (simp_all add: handle_list_command_def handle_retr_command_def handle_stor_command_def
      r425_bind_def)

text \<open>
  Claim C8, as the two sources have it. In \<^verbatim>\<open>part_000\<close> every LIST, RETR and STOR that
  reaches \<^verbatim>\<open>connect\<close> has first bound the data socket to port 20: the actions of the
  handler start with \<^verbatim>\<open>socket\<close>, \<^verbatim>\<open>setsockopt\<close>, \<^verbatim>\<open>bind\<close> to 20, and the bind succeeded. When
  the bind fails (on a session with a pending endpoint, after \<^verbatim>\<open>socket\<close> and \<^verbatim>\<open>setsockopt\<close>
  succeeded) the handler closes the data socket, replies
  \<^verbatim>\<open>425 Can't open data connection (bind 20).\<close> and returns: no connect is made and the server
  is left as it was. In \<^verbatim>\<open>src/code/server.c\<close> none of the three handlers calls \<^verbatim>\<open>bind\<close> at
  all, so the connection leaves from a port the system chooses.
\<close>

theorem bind_20_before_connect_in_part_000_only:
  "(Connect ip p \<in> set (snd (handle_list_command Part_000 e st client_fd)) \<longrightarrow>
      take 3 (snd (handle_list_command Part_000 e st client_fd)) = [Socket, Setsockopt, Bind 20] \<and>
      bind_ok e) \<and>
   (Connect ip p \<in> set (snd (handle_retr_command Part_000 e st client_fd filename)) \<longrightarrow>
      take 3 (snd (handle_retr_command Part_000 e st client_fd filename)) =
        [Socket, Setsockopt, Bind 20] \<and>
      bind_ok e) \<and>
   (Connect ip p \<in> set (snd (handle_stor_command Part_000 e st client_fd filename)) \<longrightarrow>
      take 3 (snd (handle_stor_command Part_000 e st client_fd filename)) =
        [Socket, Setsockopt, Bind 20] \<and>
      bind_ok e) \<and>
   (get_session_index (client_sessions st) client_fd = Some i \<and>
    data_port (client_sessions st ! i) \<noteq> - 1 \<and>
    socket_ok e \<and> setsockopt_ok e \<and> \<not> bind_ok e \<longrightarrow>
      handle_list_command Part_000 e st client_fd =
        (st, [Socket, Setsockopt, Bind 20, CloseData,
              send_response client_fd ''425 Can't open data connection (bind 20).'']) \<and>
      handle_retr_command Part_000 e st client_fd filename =
        (st, [Socket, Setsockopt, Bind 20, CloseData,
              send_response client_fd ''425 Can't open data connection (bind 20).'']) \<and>
      handle_stor_command Part_000 e st client_fd filename =
        (st, [Socket, Setsockopt, Bind 20, CloseData,
              send_response client_fd ''425 Can't open data connection (bind 20).''])) \<and>
   Bind q \<notin> set (snd (handle_list_command Server_c e st client_fd)) \<and>
   Bind q \<notin> set (snd (handle_retr_command Server_c e st client_fd filename)) \<and>
   Bind q \<notin> set (snd (handle_stor_command Server_c e st client_fd filename))"
proof (intro conjI)
  show "Connect ip p \<in> set (snd (handle_list_command Part_000 e st client_fd)) \<longrightarrow>
      take 3 (snd (handle_list_command Part_000 e st client_fd)) = [Socket, Setsockopt, Bind 20] \<and>
      bind_ok e"
    by (auto simp: handle_list_command_def Let_def socket_calls_def reply_defs send_response_def
        split: option.splits prod.splits)
  show "Connect ip p \<in> set (snd (handle_retr_command Part_000 e st client_fd filename)) \<longrightarrow>
      take 3 (snd (handle_retr_command Part_000 e st client_fd filename)) =
        [Socket, Setsockopt, Bind 20] \<and>
      bind_ok e"
    by (auto simp: handle_retr_command_def Let_def socket_calls_def reply_defs send_response_def
        split: option.splits prod.splits)
  show "Connect ip p \<in> set (snd (handle_stor_command Part_000 e st client_fd filename)) \<longrightarrow>
      take 3 (snd (handle_stor_command Part_000 e st client_fd filename)) =
        [Socket, Setsockopt, Bind 20] \<and>
      bind_ok e"
    by (auto simp: handle_stor_command_def Let_def socket_calls_def reply_defs send_response_def
        split: option.splits prod.splits)
  show "get_session_index (client_sessions st) client_fd = Some i \<and>
    data_port (client_sessions st ! i) \<noteq> - 1 \<and>
    socket_ok e \<and> setsockopt_ok e \<and> \<not> bind_ok e \<longrightarrow>
      handle_list_command Part_000 e st client_fd =
        (st, [Socket, Setsockopt, Bind 20, CloseData,
              send_response client_fd ''425 Can't open data connection (bind 20).'']) \<and>
      handle_retr_command Part_000 e st client_fd filename =
        (st, [Socket, Setsockopt, Bind 20, CloseData,
              send_response client_fd ''425 Can't open data connection (bind 20).'']) \<and>
      handle_stor_command Part_000 e st client_fd filename =
        (st, [Socket, Setsockopt, Bind 20, CloseData,
              send_response client_fd ''425 Can't open data connection (bind 20).''])"
    using bind_fails(1)[of st client_fd i e] bind_fails(2,3)[of st client_fd i e filename]
    by blast
  show "Bind q \<notin> set (snd (handle_list_command Server_c e st client_fd))"
    using list_child_events(2)[of q Server_c e]
    by (auto simp: handle_list_command_def Let_def socket_calls_def reply_defs send_response_def
        case_prod_beta split: option.splits)
  show "Bind q \<notin> set (snd (handle_retr_command Server_c e st client_fd filename))"
    using retr_child_events(2)[of q e]
    by (auto simp: handle_retr_command_def Let_def socket_calls_def reply_defs send_response_def
        case_prod_beta split: option.splits)
  show "Bind q \<notin> set (snd (handle_stor_command Server_c e st client_fd filename))"
    using stor_child_events(2)[of q e]
    by (auto simp: handle_stor_command_def Let_def socket_calls_def reply_defs send_response_def
        case_prod_beta split: option.splits)
qed

theorem bind_20_before_connect_in_part_000_only_witness:
  "Connect ''127.0.0.1'' 5000 \<in>
     set (snd (handle_retr_command Part_000 ex_io (ex_server ex_alice) 5 ''hello.txt'')) \<and>
   take 3 (snd (handle_retr_command Part_000 ex_io (ex_server ex_alice) 5 ''hello.txt'')) =
     [Socket, Setsockopt, Bind 20] \<and>
   bind_ok ex_io \<and>
   get_session_index (client_sessions (ex_server ex_alice)) 5 = Some 0 \<and>
   data_port (client_sessions (ex_server ex_alice) ! 0) \<noteq> - 1 \<and>
   socket_ok (ex_io\<lparr>bind_ok := False\<rparr>) \<and> setsockopt_ok (ex_io\<lparr>bind_ok := False\<rparr>) \<and>
   \<not> bind_ok (ex_io\<lparr>bind_ok := False\<rparr>) \<and>
   handle_stor_command Part_000 (ex_io\<lparr>bind_ok := False\<rparr>) (ex_server ex_alice) 5 ''doc.bin'' =
     (ex_server ex_alice,
      [Socket, Setsockopt, Bind 20, CloseData,
       send_response 5 ''425 Can't open data connection (bind 20).''])"
proof -
  have x: "Connect ''127.0.0.1'' 5000 \<in>
     set (snd (handle_retr_command Part_000 ex_io (ex_server ex_alice) 5 ''hello.txt''))"
    unfolding ex_retr_hello by simp
  have h: "socket_ok (ex_io\<lparr>bind_ok := False\<rparr>)" "setsockopt_ok (ex_io\<lparr>bind_ok := False\<rparr>)"
    "\<not> bind_ok (ex_io\<lparr>bind_ok := False\<rparr>)"
    by (simp_all add: ex_io_def)
  from bind_20_before_connect_in_part_000_only[where ip="''127.0.0.1''" and p=5000 and e=ex_io
      and st="ex_server ex_alice" and client_fd=5 and filename="''hello.txt''"] x
  have a: "take 3 (snd (handle_retr_command Part_000 ex_io (ex_server ex_alice) 5 ''hello.txt'')) =
     [Socket, Setsockopt, Bind 20] \<and> bind_ok ex_io"
    by blast
  from bind_20_before_connect_in_part_000_only[where e="ex_io\<lparr>bind_ok := False\<rparr>"
      and st="ex_server ex_alice" and client_fd=5 and filename="''doc.bin''" and i=0]
    ex_index_alice ex_pending h
  have b: "handle_stor_command Part_000 (ex_io\<lparr>bind_ok := False\<rparr>) (ex_server ex_alice) 5
             ''doc.bin'' =
     (ex_server ex_alice,
      [Socket, Setsockopt, Bind 20, CloseData,
       send_response 5 ''425 Can't open data connection (bind 20).''])"
    by blast
  from x a b ex_index_alice ex_pending h show ?thesis by blast
qed

text \<open>The claim as the specification words it fails for \<^verbatim>\<open>src/code/server.c\<close>: its RETR
  connects to the client's endpoint without any bind to port 20.\<close>

theorem server_c_connects_unbound:
  "Connect ''127.0.0.1'' 5000 \<in>
     set (snd (handle_retr_command Server_c ex_io (ex_server ex_alice) 5 ''hello.txt'')) \<and>
   Bind 20 \<notin> set (snd (handle_retr_command Server_c ex_io (ex_server ex_alice) 5 ''hello.txt''))"
  unfolding ex_retr_hello by (simp add: socket_calls_def reply_defs send_response_def)

section \<open>STOR and the temporary file\<close>

text \<open>
  Claim C2 at a failing input. Alice sends \<^verbatim>\<open>STOR doc.bin\<close>; the worker reads the three
  bytes \<^verbatim>\<open>abc\<close> and then \<^verbatim>\<open>read\<close> fails. The loop of the worker ends as it does at end of
  file, and the worker renames the temporary file: \<^verbatim>\<open>/srv/alice/doc.bin\<close> then holds the
  partial upload, no temporary file is left or deleted, the worker exits with status 0
  and the reply is 226.
\<close>

theorem stor_read_error_commits_partial_file:
  "incoming ex_io = [Bytes ''abc'', ReadError] \<and>
   files (fs (fst (handle_stor_command Part_000 ex_io (ex_server ex_alice) 5 ''doc.bin'')))
     ''/srv/alice/doc.bin'' = Some ''abc'' \<and>
   files (fs (fst (handle_stor_command Part_000 ex_io (ex_server ex_alice) 5 ''doc.bin'')))
     ''/srv/alice/tmp_1700000000_doc.bin'' = None \<and>
   snd (handle_stor_command Part_000 ex_io (ex_server ex_alice) 5 ''doc.bin'') =
     [Socket, Setsockopt, Bind 20, r150 5, Connect ''127.0.0.1'' 5000, Fork, CloseData,
      Fopen ''/srv/alice/tmp_1700000000_doc.bin'' ''wb'', CloseData,
      Rename ''/srv/alice/tmp_1700000000_doc.bin'' ''/srv/alice/doc.bin'', Exit 0, r226 5]"
proof -
  have n: "now ex_io = 1700000000" and inc: "incoming ex_io = [Bytes ''abc'', ReadError]"
    by (simp_all add: ex_io_def)
  have c1: "canonical ''/srv/alice/tmp_1700000000_doc.bin'' = ''/srv/alice/tmp_1700000000_doc.bin''"
    and c2: "canonical ''/srv/alice/doc.bin'' = ''/srv/alice/doc.bin''"
    by (simp_all add: canonical_def)
  have o: "sys_fopen_w ex_fs ''/srv/alice/tmp_1700000000_doc.bin'' =
             (True, ex_fs\<lparr>files := (files ex_fs)(''/srv/alice/tmp_1700000000_doc.bin'' := Some [])\<rparr>)"
    by (simp add: sys_fopen_w_def) (simp add: ex_fs_def c1)
  have w: "writable ex_fs ''/srv/alice/doc.bin''"
    by (simp add: ex_fs_def)
  have c: "stor_child ex_io ex_fs ''/srv/alice/tmp_1700000000_doc.bin'' ''/srv/alice/doc.bin'' =
           (ex_fs\<lparr>files := (files ex_fs)(''/srv/alice/tmp_1700000000_doc.bin'' := None,
                                           ''/srv/alice/doc.bin'' := Some ''abc''),
                  dirs := (dirs ex_fs)(''/srv/alice/tmp_1700000000_doc.bin'' := False,
                                         ''/srv/alice/doc.bin'' := False)\<rparr>,
            [Fopen ''/srv/alice/tmp_1700000000_doc.bin'' ''wb'', CloseData,
             Rename ''/srv/alice/tmp_1700000000_doc.bin'' ''/srv/alice/doc.bin''], 0)"
    unfolding stor_child_def o inc
    by (simp add: sys_fwrite_def sys_rename_def sys_stat_def w Let_def fun_upd_twist)
       (simp add: ex_fs_def c1 fun_upd_twist)
  show ?thesis
    using stor_forked[OF ex_index_alice ex_pending ex_calls_ok, where filename="''doc.bin''"
        and v=Part_000]
    by (simp add: n c socket_calls_def inc)
qed

section \<open>Parsing the control line\<close>

lemma tokens_from_skip: "tokens_from [] s = tokens_from [] (dropWhile isspace s)"
  by (induction s) simp_all

lemma tokens_from_word:
  "acc \<noteq> [] \<or> (s \<noteq> [] \<and> \<not> isspace (hd s)) \<Longrightarrow>
   tokens_from acc s =
     (rev acc @ takeWhile (\<lambda>c. \<not> isspace c) s) #
     tokens_from [] (dropWhile (\<lambda>c. \<not> isspace c) s)"
proof (induction s arbitrary: acc)
  case Nil
  then show ?case by simp
next
  case (Cons c cs)
  show ?case
  proof (cases "isspace c")
    case True
    with Cons.prems have "acc \<noteq> []" by simp
    with True show ?thesis by simp
  next
    case False
    have "tokens_from (c # acc) cs =
            (rev (c # acc) @ takeWhile (\<lambda>c. \<not> isspace c) cs) #
            tokens_from [] (dropWhile (\<lambda>c. \<not> isspace c) cs)"
      by (rule Cons.IH) simp
    with False show ?thesis by simp
  qed
qed

lemma scan_s_None: "scan_s s = None \<longleftrightarrow> tokens s = []"
proof (cases "dropWhile isspace s = []")
  case True
  have "tokens s = tokens_from [] (dropWhile isspace s)"
    unfolding tokens_def by (rule tokens_from_skip)
  also have "\<dots> = tokens_from [] []"
    by (simp only: True)
  finally have "tokens s = []"
    by simp
  then show ?thesis by (simp add: scan_s_def True)
next
  case False
  have "tokens s = tokens_from [] (dropWhile isspace s)"
    unfolding tokens_def by (rule tokens_from_skip)
  moreover have "tokens_from [] (dropWhile isspace s) \<noteq> []"
    using tokens_from_word[of "[]" "dropWhile isspace s"] hd_dropWhile[of isspace s] False
    by simp
  ultimately show ?thesis using False by (simp add: scan_s_def Let_def)
qed

lemma scan_s_Some:
  assumes "scan_s s = Some (t, r)"
  shows "tokens s = t # tokens r"
proof -
  let ?d = "dropWhile isspace s"
  from assms have d: "?d \<noteq> []" and t: "t = takeWhile (\<lambda>c. \<not> isspace c) ?d"
    and r: "r = dropWhile (\<lambda>c. \<not> isspace c) ?d"
    by (auto simp: scan_s_def Let_def split: if_splits)
  have "tokens s = tokens_from [] ?d"
    unfolding tokens_def by (rule tokens_from_skip)
  also have "\<dots> = t # tokens_from [] r"
    using tokens_from_word[of "[]" ?d] d hd_dropWhile[of isspace s] by (simp add: t r)
  finally show ?thesis by (simp add: tokens_def)
qed

text \<open>\<^verbatim>\<open>sscanf(command, "%s %s", cmd, arg)\<close> in terms of the words of the line: the verb is
  the first word, the argument the second, and a line of one word leaves \<^verbatim>\<open>arg\<close> as it
  was.\<close>

lemma sscanf_tokens:
  "sscanf_s_s line c a =
     (case tokens line of
        [] \<Rightarrow> (- 1, c, a)
      | [t] \<Rightarrow> (1, t, a)
      | t # u # _ \<Rightarrow> (2, t, u))"
proof (cases "scan_s line")
  case None
  then have "tokens line = []" by (simp add: scan_s_None)
  with None show ?thesis by (simp add: sscanf_s_s_def)
next
  case (Some p)
  obtain t r where p: "p = (t, r)" by (cases p)
  note first = scan_s_Some[OF Some[unfolded p]]
  show ?thesis
  proof (cases "scan_s r")
    case None
    then have "tokens r = []" by (simp add: scan_s_None)
    with Some p None first show ?thesis by (simp add: sscanf_s_s_def)
  next
    case (Some q)
    obtain u r' where q: "q = (u, r')" by (cases q)
    from scan_s_Some[OF Some[unfolded q]] first \<open>scan_s line = Some p\<close> p Some q
    show ?thesis by (simp add: sscanf_s_s_def)
  qed
qed

text \<open>
  Claim C7, as the source has it. The verb is the first white-space delimited word of
  the line. The argument passed to the handler is the second word only: whatever
  follows it is dropped, so an argument never contains a space. When the line has no
  second word, the handler receives the unchanged contents of the uninitialised buffer
  \<^verbatim>\<open>arg\<close>, not the empty string. A line without any word is answered with 500.
\<close>

theorem argument_is_the_second_word:
  "handle_command v e st client_fd line =
     (case tokens line of
        [] \<Rightarrow> (st, [send_response client_fd ''500 Syntax error, command unrecognized.''])
      | verb # rest \<Rightarrow>
          (case get_session_index (client_sessions st) client_fd of
             None \<Rightarrow> (st, [send_response client_fd ''500 Internal server error.''])
           | Some i \<Rightarrow>
               dispatch v e st client_fd i verb
                 (case rest of [] \<Rightarrow> arg_buf e | a # _ \<Rightarrow> a)))"
  by (simp add: handle_command_def sscanf_tokens split: list.splits option.splits)

lemma ex_tokens:
  "tokens ''STOR my file.txt'' = [''STOR'', ''my'', ''file.txt'']"
  "tokens ''CWD'' = [''CWD'']"
  "tokens ''CWD ../..'' = [''CWD'', ''../..'']"
  "tokens ''RETR ../../etc/passwd'' = [''RETR'', ''../../etc/passwd'']"
  "tokens ''PWD'' = [''PWD'']"
  by (simp_all add: tokens_def isspace_def)

theorem argument_is_the_second_word_witness:
  "handle_command Server_c ex_io (ex_server ex_alice) 5 ''STOR my file.txt'' =
     dispatch Server_c ex_io (ex_server ex_alice) 5 0 ''STOR'' ''my''"
  using argument_is_the_second_word[of Server_c ex_io "ex_server ex_alice" 5 "''STOR my file.txt''"]
  by (simp add: ex_tokens ex_index_alice)

text \<open>The claim as the specification words it fails: of \<^verbatim>\<open>STOR my file.txt\<close> the handler
  receives \<^verbatim>\<open>my\<close> and not \<^verbatim>\<open>my file.txt\<close>; of \<^verbatim>\<open>CWD\<close> alone it receives the stale contents
  of the buffer and not the empty string.\<close>

lemma ex_dispatch:
  "dispatch Server_c e (ex_server ex_alice) 5 0 ''STOR'' a =
     handle_stor_command Server_c e (ex_server ex_alice) 5 a"
  "dispatch Server_c e (ex_server ex_alice) 5 0 ''CWD'' a =
     handle_cwd_command (ex_server ex_alice) 5 a"
  "dispatch Part_000 e (ex_server ex_alice) 5 0 ''RETR'' a =
     handle_retr_command Part_000 e (ex_server ex_alice) 5 a"
  by (simp_all add: dispatch_def)

lemma ex_stor_renames:
  "Rename (''/srv/alice/tmp_1700000000_'' @ name) (''/srv/alice/'' @ name) \<in>
     set (snd (handle_stor_command Server_c ex_io (ex_server ex_alice) 5 name)) \<longleftrightarrow>
   writable ex_fs (''/srv/alice/tmp_1700000000_'' @ name) \<and>
   \<not> dirs ex_fs (''/srv/alice/tmp_1700000000_'' @ name)"
  using stor_forked[OF ex_index_alice ex_pending ex_calls_ok, where filename=name and v=Server_c]
  by (auto simp: ex_io_def stor_child_def sys_fopen_w_def Let_def socket_calls_def reply_defs
      send_response_def)

theorem second_word_only_reaches_handler:
  "handle_command Server_c ex_io (ex_server ex_alice) 5 ''STOR my file.txt'' =
     handle_stor_command Server_c ex_io (ex_server ex_alice) 5 ''my'' \<and>
   handle_command Server_c ex_io (ex_server ex_alice) 5 ''STOR my file.txt'' \<noteq>
     handle_stor_command Server_c ex_io (ex_server ex_alice) 5 ''my file.txt'' \<and>
   arg_buf ex_io = ''stale'' \<and>
   handle_command Server_c ex_io (ex_server ex_alice) 5 ''CWD'' =
     handle_cwd_command (ex_server ex_alice) 5 ''stale'' \<and>
   handle_command Server_c ex_io (ex_server ex_alice) 5 ''CWD'' \<noteq>
     handle_cwd_command (ex_server ex_alice) 5 []"
proof -
  have a: "handle_command Server_c ex_io (ex_server ex_alice) 5 ''STOR my file.txt'' =
             handle_stor_command Server_c ex_io (ex_server ex_alice) 5 ''my''"
    by (simp add: handle_command_def sscanf_tokens ex_tokens ex_index_alice ex_dispatch)
  have "Rename ''/srv/alice/tmp_1700000000_my file.txt'' ''/srv/alice/my file.txt'' \<in>
          set (snd (handle_stor_command Server_c ex_io (ex_server ex_alice) 5 ''my file.txt''))"
    using ex_stor_renames[of "''my file.txt''"] by (simp add: ex_fs_def canonical_def)
  moreover
  have "Rename ''/srv/alice/tmp_1700000000_my file.txt'' ''/srv/alice/my file.txt'' \<notin>
          set (snd (handle_stor_command Server_c ex_io (ex_server ex_alice) 5 ''my''))"
    using stor_forked[OF ex_index_alice ex_pending ex_calls_ok, where filename="''my''"
        and v=Server_c]
    by (auto simp: ex_io_def stor_child_def sys_fopen_w_def Let_def socket_calls_def reply_defs
        send_response_def split: if_splits)
  ultimately have b: "handle_stor_command Server_c ex_io (ex_server ex_alice) 5 ''my'' \<noteq>
             handle_stor_command Server_c ex_io (ex_server ex_alice) 5 ''my file.txt''"
    by metis
  have s: "arg_buf ex_io = ''stale''"
    by (simp add: ex_io_def)
  have c: "handle_command Server_c ex_io (ex_server ex_alice) 5 ''CWD'' =
             handle_cwd_command (ex_server ex_alice) 5 ''stale''"
    by (simp add: handle_command_def sscanf_tokens ex_tokens ex_index_alice ex_dispatch s)
  have "replies (snd (handle_cwd_command (ex_server ex_alice) 5 ''stale'')) =
          [''550 No such file or directory.'' @ CRLF]"
    by (simp add: handle_cwd_command_def ex_index_alice is_absolute_def Let_def)
       (simp add: ex_fs_def canonical_def)
  moreover
  have "replies (snd (handle_cwd_command (ex_server ex_alice) 5 [])) \<noteq>
          [''550 No such file or directory.'' @ CRLF]"
    by (simp add: handle_cwd_command_def ex_index_alice is_absolute_def Let_def)
       (simp add: ex_fs_def canonical_def)
  ultimately have d: "handle_cwd_command (ex_server ex_alice) 5 ''stale'' \<noteq>
                      handle_cwd_command (ex_server ex_alice) 5 []"
    by metis
  from a b s c d show ?thesis by simp
qed

section \<open>USER on a session that is already logged in\<close>

lemma sscanf_user:
  assumes "u \<noteq> []" and "\<forall>c \<in> set u. \<not> isspace c"
  shows "sscanf_s_s (''USER '' @ u) c0 a0 = (2, ''USER'', u)"
proof -
  have t: "takeWhile (\<lambda>c. \<not> isspace c) u = u"
    by (rule takeWhile_eq_all_conv[THEN iffD2]) (use assms(2) in blast)
  have "\<not> isspace (hd u)"
    using assms hd_in_set[of u] by blast
  then have d: "dropWhile isspace u = u"
    by (simp add: dropWhile_eq_self_iff)
  have 1: "scan_s (''USER '' @ u) = Some (''USER'', '' '' @ u)"
    by (simp add: scan_s_def isspace_def)
  have sp: "isspace CHR '' ''"
    by (simp add: isspace_def)
  have dd: "dropWhile isspace ('' '' @ u) = u"
    by (simp add: sp d)
  have 2: "scan_s ('' '' @ u) = Some (u, [])"
    unfolding scan_s_def dd using assms by (auto simp: Let_def)
  show ?thesis
    by (simp only: sscanf_s_s_def 1 2 option.case prod.case)
qed

lemma set_session_nth:
  "get_session_index (client_sessions st) fd = Some i \<Longrightarrow>
   client_sessions (set_session st i s') ! i = s'"
  using get_session_index_Some[of "client_sessions st" fd i] by (simp add: set_session_def)

lemma set_session_index:
  "get_session_index (client_sessions st) fd = Some i \<Longrightarrow>
   control_fd s' = control_fd (client_sessions st ! i) \<Longrightarrow>
   get_session_index (client_sessions (set_session st i s')) fd = Some i"
  using get_session_index_Some[of "client_sessions st" fd i]
    get_session_index_update[of "client_sessions st" fd i s']
  by (simp add: set_session_def)

text \<open>
  Claim C9. \<^verbatim>\<open>USER u\<close> for a user \<open>u\<close> of the credential store, on any session and
  whether or not it is logged in, stores \<open>u\<close> (cut by \<^verbatim>\<open>strncpy\<close> at 50 characters) in the
  \<^verbatim>\<open>username\<close> field of that session, replies 331 and changes nothing else: the
  \<^verbatim>\<open>authenticated\<close> flag, \<^verbatim>\<open>root_dir\<close>, \<^verbatim>\<open>current_dir\<close> and the pending endpoint stay as they
  were. A session that was logged in therefore still is, with no PASS: its next \<^verbatim>\<open>PWD\<close>
  is not refused with 530 but answered from the unchanged current directory and the new
  user name.
\<close>

theorem user_changes_only_the_username:
  assumes "get_session_index (client_sessions st) client_fd = Some i"
    and "user_exists (users st) u"
    and "u \<noteq> []" and "\<forall>c \<in> set u. \<not> isspace c"
  shows "handle_user_command st client_fd u =
           (set_session st i ((client_sessions st ! i)\<lparr>username := strncpy u MAX_USERNAME\<rparr>),
            [send_response client_fd ''331 Username OK, need password.'']) \<and>
         handle_command v e st client_fd (''USER '' @ u) = handle_user_command st client_fd u \<and>
         authenticated (client_sessions (fst (handle_command v e st client_fd (''USER '' @ u))) ! i) =
           authenticated (client_sessions st ! i) \<and>
         root_dir (client_sessions (fst (handle_command v e st client_fd (''USER '' @ u))) ! i) =
           root_dir (client_sessions st ! i) \<and>
         current_dir (client_sessions (fst (handle_command v e st client_fd (''USER '' @ u))) ! i) =
           current_dir (client_sessions st ! i) \<and>
         data_ip (client_sessions (fst (handle_command v e st client_fd (''USER '' @ u))) ! i) =
           data_ip (client_sessions st ! i) \<and>
         data_port (client_sessions (fst (handle_command v e st client_fd (''USER '' @ u))) ! i) =
           data_port (client_sessions st ! i) \<and>
         (authenticated (client_sessions st ! i) \<noteq> 0 \<longrightarrow>
          handle_command v e' (fst (handle_command v e st client_fd (''USER '' @ u))) client_fd ''PWD'' =
            (fst (handle_command v e st client_fd (''USER '' @ u)),
             [send_response client_fd
                (case strstr (current_dir (client_sessions st ! i)) (strncpy u MAX_USERNAME) of
                   Some username_pos \<Rightarrow> ''257 '' @ username_pos @ ''/''
                 | None \<Rightarrow> ''257 '' @ current_dir (client_sessions st ! i) @ ''/'')]))"
proof -
  let ?s' = "(client_sessions st ! i)\<lparr>username := strncpy u MAX_USERNAME\<rparr>"
  let ?st' = "set_session st i ?s'"
  have user: "handle_command v e st client_fd (''USER '' @ u) =
           (?st', [send_response client_fd ''331 Username OK, need password.''])"
    unfolding handle_command_def sscanf_user[OF assms(3,4)] using assms(1,2)
    by (simp add: dispatch_def handle_user_command_def)
  have nth: "client_sessions ?st' ! i = ?s'"
    by (rule set_session_nth[OF assms(1)])
  have idx: "get_session_index (client_sessions ?st') client_fd = Some i"
    by (rule set_session_index[OF assms(1)]) simp
  have pwd: "sscanf_s_s ''PWD'' (cmd_buf e') (arg_buf e') = (1, ''PWD'', arg_buf e')"
    by (simp add: sscanf_s_s_def scan_s_def isspace_def)
  have "authenticated (client_sessions st ! i) \<noteq> 0 \<Longrightarrow>
        handle_command v e' ?st' client_fd ''PWD'' =
          (?st',
           [send_response client_fd
              (case strstr (current_dir (client_sessions st ! i)) (strncpy u MAX_USERNAME) of
                 Some username_pos \<Rightarrow> ''257 '' @ username_pos @ ''/''
               | None \<Rightarrow> ''257 '' @ current_dir (client_sessions st ! i) @ ''/'')])"
    by (simp add: handle_command_def pwd idx dispatch_def nth handle_pwd_command_def Let_def
        split: option.splits)
  moreover have "handle_user_command st client_fd u =
           (?st', [send_response client_fd ''331 Username OK, need password.''])"
    using assms(1,2) by (simp add: handle_user_command_def)
  ultimately show ?thesis using user nth by simp
qed

lemma ex_user_exists: "user_exists (users (ex_server ex_alice)) ''bob''"
  by simp

theorem user_changes_only_the_username_witness:
  "get_session_index (client_sessions (ex_server ex_alice)) 5 = Some 0 \<and>
   user_exists (users (ex_server ex_alice)) ''bob'' \<and>
   handle_command Part_000 ex_io (ex_server ex_alice) 5 ''USER bob'' =
     (ex_server (ex_alice\<lparr>username := ''bob''\<rparr>),
      [send_response 5 ''331 Username OK, need password.'']) \<and>
   authenticated (ex_alice\<lparr>username := ''bob''\<rparr>) = 1 \<and>
   handle_command Part_000 ex_io (ex_server (ex_alice\<lparr>username := ''bob''\<rparr>)) 5 ''PWD'' =
     (ex_server (ex_alice\<lparr>username := ''bob''\<rparr>), [send_response 5 ''257 /srv/alice/''])"
proof -
  have tok: "''bob'' \<noteq> []" "\<forall>c \<in> set ''bob''. \<not> isspace c"
    by (simp_all add: isspace_def)
  have cut: "strncpy ''bob'' MAX_USERNAME = ''bob''"
    by (simp add: strncpy_def MAX_USERNAME_def)
  have nowhere: "strstr ''/srv/alice'' ''bob'' = None"
    by simp
  note t = user_changes_only_the_username[OF ex_index_alice ex_user_exists tok,
      of Part_000 ex_io ex_io]
  from t have u: "handle_command Part_000 ex_io (ex_server ex_alice) 5 ''USER bob'' =
     (ex_server (ex_alice\<lparr>username := ''bob''\<rparr>),
      [send_response 5 ''331 Username OK, need password.''])"
    by (simp add: cut ex_set_session)
  have a: "authenticated (client_sessions (ex_server ex_alice) ! 0) \<noteq> 0"
    by simp
  note pw = t[THEN conjunct2, THEN conjunct2, THEN conjunct2, THEN conjunct2, THEN conjunct2,
      THEN conjunct2, THEN conjunct2, THEN mp, OF a]
  from pw have "handle_command Part_000 ex_io
       (fst (handle_command Part_000 ex_io (ex_server ex_alice) 5 ''USER bob'')) 5 ''PWD'' =
     (fst (handle_command Part_000 ex_io (ex_server ex_alice) 5 ''USER bob''),
      [send_response 5 ''257 /srv/alice/''])"
    by (simp add: cut nowhere)
  then have p: "handle_command Part_000 ex_io (ex_server (ex_alice\<lparr>username := ''bob''\<rparr>)) 5 ''PWD'' =
     (ex_server (ex_alice\<lparr>username := ''bob''\<rparr>), [send_response 5 ''257 /srv/alice/''])"
    by (simp add: u)
  from u p ex_index_alice ex_user_exists show ?thesis by simp
qed

section \<open>The jail\<close>

lemma within_root_inside: "within_root resolved_path allowed_root \<longleftrightarrow> inside allowed_root resolved_path"
proof
  assume w: "within_root resolved_path allowed_root"
  then have t: "take (length allowed_root) resolved_path = allowed_root"
    by (simp add: within_root_def)
  then have le: "length allowed_root \<le> length resolved_path"
    by (metis length_take min.cobounded1)
  have split: "resolved_path = allowed_root @ drop (length allowed_root) resolved_path"
    using t by (metis append_take_drop_id)
  show "inside allowed_root resolved_path"
  proof (cases "length resolved_path = length allowed_root")
    case True
    with t show ?thesis by (simp add: inside_def)
  next
    case False
    with w have c: "resolved_path ! length allowed_root = CHR ''/''"
      by (simp add: within_root_def)
    from False le have lt: "length allowed_root < length resolved_path" by simp
    then have "drop (length allowed_root) resolved_path =
               CHR ''/'' # drop (Suc (length allowed_root)) resolved_path"
      using c by (simp add: Cons_nth_drop_Suc[symmetric])
    with split have "resolved_path =
        (allowed_root @ ''/'') @ drop (Suc (length allowed_root)) resolved_path"
      by simp
    then show ?thesis unfolding inside_def by (metis prefixI)
  qed
next
  assume "inside allowed_root resolved_path"
  then show "within_root resolved_path allowed_root"
    by (auto simp: inside_def within_root_def prefix_def nth_append)
qed

text \<open>The CWD of \<^verbatim>\<open>part_000\<close> does keep the session inside \<^verbatim>\<open>realpath(username)\<close>: it
  either leaves the current directory as it was or moves it to a resolved path at or
  below that root.\<close>

lemma cwd_p0_confined:
  assumes "get_session_index (client_sessions st) client_fd = Some i"
    and "resolve (fs st) (username (client_sessions st ! i)) = Some allowed_root"
  shows "current_dir (client_sessions (fst (handle_cwd_command_p0 st client_fd dir)) ! i) =
           current_dir (client_sessions st ! i) \<or>
         inside allowed_root
           (current_dir (client_sessions (fst (handle_cwd_command_p0 st client_fd dir)) ! i))"
  using assms set_session_nth[OF assms(1)]
  by (auto simp: handle_cwd_command_p0_def Let_def within_root_inside split: option.splits)

text \<open>
  Claim C1 at failing inputs. Alice is logged in with jail \<^verbatim>\<open>/srv/alice\<close>. In \<^verbatim>\<open>part_000\<close>,
  whose CWD is confined, \<^verbatim>\<open>RETR ../../etc/passwd\<close> opens \<^verbatim>\<open>/srv/alice/../../etc/passwd\<close>,
  that is \<^verbatim>\<open>/etc/passwd\<close>, outside the jail and outside the server root, and sends its
  contents; \<^verbatim>\<open>CWD ../..\<close> is refused with 550 there. In \<^verbatim>\<open>src/code/server.c\<close> the same
  \<^verbatim>\<open>CWD ../..\<close> is answered with 200 and moves the current directory to the root of the
  file system.
\<close>

theorem retr_and_cwd_leave_the_jail:
  "jail ex_alice = ''/srv/alice'' \<and>
   Fopen ''/srv/alice/../../etc/passwd'' ''rb'' \<in>
     set (snd (handle_command Part_000 ex_io (ex_server ex_alice) 5 ''RETR ../../etc/passwd'')) \<and>
   DataWrite ''root:x:0:0'' \<in>
     set (snd (handle_command Part_000 ex_io (ex_server ex_alice) 5 ''RETR ../../etc/passwd'')) \<and>
   \<not> list_all (\<lambda>p. inside (jail ex_alice) (canonical p))
         (concat (map fs_paths
            (snd (handle_command Part_000 ex_io (ex_server ex_alice) 5 ''RETR ../../etc/passwd'')))) \<and>
   canonical ''/srv/alice/../../etc/passwd'' = ''/etc/passwd'' \<and>
   \<not> inside (jail ex_alice) ''/etc/passwd'' \<and>
   \<not> inside (root_dir ex_alice) ''/etc/passwd'' \<and>
   replies (snd (handle_command Part_000 ex_io (ex_server ex_alice) 5 ''CWD ../..'')) =
     [''550 Permission denied.'' @ CRLF] \<and>
   replies (snd (handle_command Server_c ex_io (ex_server ex_alice) 5 ''CWD ../..'')) =
     [''200 directory changed to alice/../../.'' @ CRLF] \<and>
   current_dir
     (client_sessions (fst (handle_command Server_c ex_io (ex_server ex_alice) 5 ''CWD ../..'')) ! 0) =
     ''/srv/alice/../..'' \<and>
   canonical ''/srv/alice/../..'' = ''/'' \<and>
   \<not> inside (jail ex_alice) ''/''"
proof -
  have j: "jail ex_alice = ''/srv/alice''"
    by (simp add: jail_def)
  have retr: "handle_command Part_000 ex_io (ex_server ex_alice) 5 ''RETR ../../etc/passwd'' =
                handle_retr_command Part_000 ex_io (ex_server ex_alice) 5 ''../../etc/passwd''"
    by (simp add: handle_command_def sscanf_tokens ex_tokens ex_index_alice ex_dispatch)
  have ev: "snd (handle_retr_command Part_000 ex_io (ex_server ex_alice) 5 ''../../etc/passwd'') =
     [Socket, Setsockopt, Bind 20, Fopen ''/srv/alice/../../etc/passwd'' ''rb'', r150 5,
      Connect ''127.0.0.1'' 5000, Fork, CloseData,
      Fopen ''/srv/alice/../../etc/passwd'' ''rb'', DataWrite ''root:x:0:0'', CloseData, Exit 0,
      r226 5]"
    using retr_forked[OF ex_index_alice ex_pending ex_calls_ok,
        where filename="''../../etc/passwd''" and content="''root:x:0:0''" and v=Part_000]
    by (simp add: ex_files retr_child_def chunks.simps BUFFER_SIZE_def socket_calls_def)
       (simp add: ex_io_def)
  have out: "\<not> inside ''/srv/alice'' ''/etc/passwd''" "\<not> inside ''/srv'' ''/etc/passwd''"
    "\<not> inside ''/srv/alice'' ''/''"
    by (simp_all add: inside_def)
  have cwd0: "handle_command Part_000 ex_io (ex_server ex_alice) 5 ''CWD ../..'' =
                handle_cwd_command_p0 (ex_server ex_alice) 5 ''../..''"
    by (simp add: handle_command_def sscanf_tokens ex_tokens ex_index_alice dispatch_def)
  have r1: "resolve ex_fs ''/srv/alice/../..'' = Some ''/''"
    and r2: "resolve ex_fs ''alice'' = Some ''/srv/alice''"
    by (simp_all add: ex_fs_def is_absolute_def canonical_def)
  have denied: "replies (snd (handle_cwd_command_p0 (ex_server ex_alice) 5 ''../..'')) =
                  [''550 Permission denied.'' @ CRLF]"
    by (simp add: handle_cwd_command_p0_def ex_index_alice is_absolute_def Let_def r1 r2
        within_root_def)
  have cwd1: "handle_command Server_c ex_io (ex_server ex_alice) 5 ''CWD ../..'' =
                handle_cwd_command (ex_server ex_alice) 5 ''../..''"
    by (simp add: handle_command_def sscanf_tokens ex_tokens ex_index_alice ex_dispatch)
  have d: "dirs ex_fs ''/srv/alice/../..''"
    by (simp add: ex_fs_def ex_canonical)
  have moved: "handle_cwd_command (ex_server ex_alice) 5 ''../..'' =
     (set_session (ex_server ex_alice) 0 (ex_alice\<lparr>current_dir := ''/srv/alice/../..''\<rparr>),
      [Opendir ''/srv/alice/../..'',
       send_response 5 ''200 directory changed to alice/../../.''])"
    by (simp add: handle_cwd_command_def ex_index_alice is_absolute_def Let_def d)
  show ?thesis
    unfolding retr ev cwd0 denied cwd1 moved
    by (simp add: j out ex_canonical reply_defs send_response_def)
qed

section \<open>A connection accepted when every slot is taken\<close>

subsection \<open>No command gives a slot to a descriptor\<close>

lemma same_descriptors_refl [simp]: "same_descriptors st st"
  by (auto simp: same_descriptors_def)

lemma same_descriptors_fs [simp]:
  "same_descriptors st (st'\<lparr>fs := f\<rparr>) = same_descriptors st st'"
  by (simp add: same_descriptors_def fds_def)

lemma same_descriptors_rnfr [simp]:
  "same_descriptors st (st'\<lparr>rnfr_filename := r\<rparr>) = same_descriptors st st'"
  by (simp add: same_descriptors_def fds_def)

lemma same_descriptors_set_session [simp]:
  assumes "i < length (client_sessions st)"
    and "control_fd s' = control_fd (client_sessions st ! i) \<or> control_fd s' = - 1"
  shows "same_descriptors st (set_session st i s')"
proof -
  have "set ((client_sessions st)[i := s']) \<subseteq> insert s' (set (client_sessions st))"
    by (rule set_update_subset_insert)
  then have "fds (set_session st i s') \<subseteq> insert (control_fd s') (fds st)"
    by (auto simp: fds_def set_session_def)
  moreover have "control_fd (client_sessions st ! i) \<in> fds st"
    using assms(1) by (simp add: fds_def)
  ultimately show ?thesis
    using assms(2) by (auto simp: same_descriptors_def set_session_def)
qed






















subsection \<open>The main loop\<close>






subsection \<open>What is sent on one connection\<close>


lemma on_fd_send [simp]: "on_fd y (send_response fd t) \<longleftrightarrow> y = fd"
  by (auto simp: on_fd_def send_response_def)

lemma on_fd_simps [simp]:
  "on_fd y (Close fd) \<longleftrightarrow> y = fd"
  "\<not> on_fd y Socket" "\<not> on_fd y Setsockopt" "\<not> on_fd y (Bind q)" "\<not> on_fd y (Connect ip p)"
  "\<not> on_fd y CloseData" "\<not> on_fd y Fork" "\<not> on_fd y (Exit n)" "\<not> on_fd y (DataWrite b)"
  "\<not> on_fd y (Opendir d)" "\<not> on_fd y (Fopen d m)" "\<not> on_fd y (Mkdir d)" "\<not> on_fd y (Rmdir d)"
  "\<not> on_fd y (Unlink d)" "\<not> on_fd y (Stat d)" "\<not> on_fd y (Rename d d')"
  "\<not> on_fd y (Realpath d)"
  by (auto simp: on_fd_def)

lemma on_fd_replies [simp]:
  "on_fd y (r425 fd) \<longleftrightarrow> y = fd" "on_fd y (r425_bind fd) \<longleftrightarrow> y = fd"
  "on_fd y (r150 fd) \<longleftrightarrow> y = fd" "on_fd y (r451 fd) \<longleftrightarrow> y = fd" "on_fd y (r226 fd) \<longleftrightarrow> y = fd"
  by (simp_all add: reply_defs)


























subsection \<open>The server of \<^verbatim>\<open>part_000\<close> does not exit\<close>







text \<open>The server of \<^verbatim>\<open>src/code/server.c\<close> does exit that way: its QUIT handler closes the
  control socket and leaves it in \<^verbatim>\<open>master_fds\<close>, so the next \<^verbatim>\<open>select\<close> fails.\<close>

lemma server_c_exits_after_quit:
  "fst (main_loop Server_c (ex_server ex_alice) [(None, [(ex_io, 5, ''QUIT'' @ CRLF)])]) = None"
proof -
  have l: "c_line (''QUIT'' @ CRLF) = ''QUIT''"
    by (simp add: c_line_def CRLF_def)
  have t: "tokens ''QUIT'' = [''QUIT'']"
    by (simp add: tokens_def isspace_def)
  have q: "handle_command Server_c ex_io (ex_server ex_alice) 5 ''QUIT'' =
             (set_session (ex_server ex_alice) 0 (clean_up_session ex_alice),
              [send_response 5 ''221 Service closing control connection.'', Close 5])"
    by (simp add: handle_command_def sscanf_tokens t ex_index_alice dispatch_def
        handle_quit_command_def handle_quit_command_p0_def Let_def)
  have r: "run Server_c (ex_server ex_alice) [Readable ex_io 5 (''QUIT'' @ CRLF)] =
             (set_session (ex_server ex_alice) 0 (clean_up_session ex_alice),
              [send_response 5 ''221 Service closing control connection.'', Close 5])"
    unfolding run.simps step_def input.case client_readable_def l q
    by (simp add: CRLF_def)
  have i: "round_inputs (None, [(ex_io, 5, ''QUIT'' @ CRLF)]) =
             [Readable ex_io 5 (''QUIT'' @ CRLF)]"
    by (simp only: round_inputs_def fst_conv snd_conv option.case list.map prod.case append_Nil)
  show ?thesis
    unfolding main_loop.simps i r
    by (simp add: select_fails_def closes_selected_def send_response_def set_session_def
        ex_server_def)
qed
















end
